theory Spec2Isabelle
  imports Complex_Main "HOL-Library.Multiset" "HOL-Library.Monad_Syntax"
begin

section \<open>Values shared by the monitor and the analyzer\<close>

text \<open>
  Python numbers as the two scripts produce them: an \<open>int\<close>, or a \<open>float\<close>. A float is
  modelled by the exact rational it approximates (binary64 rounding is not modelled);
  \<open>PyNaN\<close> is the float that compares false with everything.
\<close>

datatype pynum = PyInt int | PyFloat rat | PyNaN

text \<open>The exceptions the modelled code can meet.\<close>

datatype py_error = IndexError | KeyError | ValueError | TypeError | ZeroDivisionError | OSError

text \<open>
  The values a Sample holds, and a dictionary as the list of its items in insertion
  order. \<open>d[k] = v\<close> keeps the place of a key that is there and appends a new one;
  \<open>d.update(other)\<close> does so for each item of \<open>other\<close>; \<open>d.get(k, dflt)\<close> reads.
\<close>

datatype pyval =
    PNone
  | PNum pynum
  | PStr string
  | PList "pyval list"
  | PTuple "pyval list"
  | PDict "(string \<times> pyval) list"

type_synonym dict = "(string \<times> pyval) list"

fun dict_set :: "string \<Rightarrow> pyval \<Rightarrow> dict \<Rightarrow> dict" where
  "dict_set k v [] = [(k, v)]"
| "dict_set k v (p # ps) = (if fst p = k then (k, v) # ps else p # dict_set k v ps)"

definition dict_update :: "dict \<Rightarrow> dict \<Rightarrow> dict" where
  "dict_update d other = foldl (\<lambda>acc kv. dict_set (fst kv) (snd kv) acc) d other"

definition dict_get :: "dict \<Rightarrow> string \<Rightarrow> pyval \<Rightarrow> pyval" where
  "dict_get d k dflt = (case map_of d k of None \<Rightarrow> dflt | Some v \<Rightarrow> v)"

definition py_int0 :: pyval where
  "py_int0 = PNum (PyInt 0)"

section \<open>monitor-concurrent.py: the attribution heuristic\<close>

text \<open>
  One entry of the list \<open>get_ffmpeg_processes\<close> returns; only \<open>pid\<close> and
  \<open>input_streams\<close> are read by \<open>detect_nvenc_utilization\<close>.
\<close>

record process_info =
  pid :: int
  input_streams :: int
  cpu_percent :: rat
  memory_mb :: pynum
  runtime_seconds :: pynum
  cmdline_sample :: string

record nvenc_util =
  nvenc1_estimated_load :: int
  nvenc2_estimated_load :: int
  total_concurrent_streams :: int

definition zero_util :: nvenc_util where
  "zero_util = \<lparr>nvenc1_estimated_load = 0, nvenc2_estimated_load = 0,
                 total_concurrent_streams = 0\<rparr>"

text \<open>
  \<open>sorted(ffmpeg_processes, key=lambda x: x['pid'])\<close> is a stable sort by key, as
  \<open>sort_key\<close> is; \<open>sum(...)\<close> is \<open>sum_list\<close>. The branches follow the source: the
  empty list, one process, two or more.
\<close>

definition detect_nvenc_utilization :: "process_info list \<Rightarrow> nvenc_util" where
  "detect_nvenc_utilization ffmpeg_processes =
     (if ffmpeg_processes = [] then zero_util
      else
        let sorted_processes = sort_key pid ffmpeg_processes;
            total_streams = sum_list (map input_streams sorted_processes)
        in (case sorted_processes of
              [p] \<Rightarrow> \<lparr>nvenc1_estimated_load = input_streams p,
                      nvenc2_estimated_load = 0,
                      total_concurrent_streams = total_streams\<rparr>
            | p # q # _ \<Rightarrow> \<lparr>nvenc1_estimated_load = input_streams p,
                            nvenc2_estimated_load = input_streams q,
                            total_concurrent_streams = total_streams\<rparr>
            | [] \<Rightarrow> zero_util))"

section \<open>Strings, as both scripts use them\<close>

text \<open>
  Characters are bytes; the whitespace class is the ASCII part of what Python's
  \<open>str.strip\<close> and the regular expression \<open>\s\<close> accept (tab, line feed, vertical tab,
  form feed, carriage return, the four separators 0x1C-0x1F and the space).
\<close>

definition is_space :: "char \<Rightarrow> bool" where
  "is_space c = (c \<in> set [CHR 0x09, CHR 0x0A, CHR 0x0B, CHR 0x0C, CHR 0x0D,
                             CHR 0x1C, CHR 0x1D, CHR 0x1E, CHR 0x1F, CHR '' ''])"

definition is_digit :: "char \<Rightarrow> bool" where
  "is_digit c = (c \<in> set ''0123456789'')"

text \<open>\<open>s.strip()\<close>.\<close>

definition py_strip :: "string \<Rightarrow> string" where
  "py_strip s = rev (dropWhile is_space (rev (dropWhile is_space s)))"

text \<open>\<open>s.split(sep)\<close> for a one-character separator: the empty string gives \<open>['']\<close>.\<close>

fun split_on :: "char \<Rightarrow> string \<Rightarrow> string list" where
  "split_on sep [] = [[]]"
| "split_on sep (c # cs) =
     (if c = sep then [] # split_on sep cs
      else (case split_on sep cs of
              w # ws \<Rightarrow> (c # w) # ws
            | [] \<Rightarrow> [[c]]))"

text \<open>The rest of \<open>s\<close> after the literal \<open>p\<close>, when \<open>s\<close> starts with it.\<close>

fun strip_prefix :: "string \<Rightarrow> string \<Rightarrow> string option" where
  "strip_prefix [] s = Some s"
| "strip_prefix (p # ps) [] = None"
| "strip_prefix (p # ps) (c # cs) = (if p = c then strip_prefix ps cs else None)"

definition starts_with :: "string \<Rightarrow> string \<Rightarrow> bool" where
  "starts_with p s = (strip_prefix p s \<noteq> None)"

text \<open>The decimal value of a string of ASCII digits: \<open>int(x)\<close> on a \<open>[0-9]+\<close> match.\<close>

definition digit_val :: "char \<Rightarrow> int" where
  "digit_val c = int (of_char c) - 48"

definition int_of_digits :: "string \<Rightarrow> int" where
  "int_of_digits ds = foldl (\<lambda>a c. 10 * a + digit_val c) 0 ds"

section \<open>Arithmetic and comparison on Python numbers\<close>

definition py_add :: "pynum \<Rightarrow> pynum \<Rightarrow> pynum" where
  "py_add a b =
     (case (a, b) of
        (PyInt i, PyInt j) \<Rightarrow> PyInt (i + j)
      | (PyInt i, PyFloat y) \<Rightarrow> PyFloat (of_int i + y)
      | (PyFloat x, PyInt j) \<Rightarrow> PyFloat (x + of_int j)
      | (PyFloat x, PyFloat y) \<Rightarrow> PyFloat (x + y)
      | _ \<Rightarrow> PyNaN)"

text \<open>\<open>a / n\<close> for a non-zero int literal \<open>n\<close>: true division, always a float.\<close>

definition py_div_int :: "pynum \<Rightarrow> int \<Rightarrow> pynum" where
  "py_div_int a n =
     (case a of
        PyInt i \<Rightarrow> PyFloat (of_int i / of_int n)
      | PyFloat x \<Rightarrow> PyFloat (x / of_int n)
      | PyNaN \<Rightarrow> PyNaN)"



section \<open>analyze-results.py: markers in an encoder log\<close>

text \<open>
  One attempt of \<open>re\<close> to match \<open>key\s*(cls+)suffix\<close> at the start of \<open>s\<close>: the
  captured group and the text after the match. Both quantifiers are greedy; a shorter
  choice never helps, since the character after the white space is not white space, the
  group's class holds no white space, and the suffix (\<open>x\<close>, or nothing) starts with no
  character of the class.
\<close>

definition re_match ::
  "string \<Rightarrow> (char \<Rightarrow> bool) \<Rightarrow> string \<Rightarrow> string \<Rightarrow> (string \<times> string) option" where
  "re_match key cls suffix s =
     (case strip_prefix key s of
        None \<Rightarrow> None
      | Some r1 \<Rightarrow>
          let r2 = dropWhile is_space r1;
              grp = takeWhile cls r2;
              r3 = dropWhile cls r2
          in if grp = [] then None
             else (case strip_prefix suffix r3 of
                     None \<Rightarrow> None
                   | Some r4 \<Rightarrow> Some (grp, r4)))"

lemma strip_prefix_length:
  "strip_prefix p s = Some r \<Longrightarrow> length r \<le> length s"
  by (induction p s rule: strip_prefix.induct) (auto split: if_splits)

lemma re_match_shorter:
  assumes "re_match key cls suffix s = Some (g, r)"
  shows "length r < length s"
proof -
  from assms obtain r1 where r1: "strip_prefix key s = Some r1"
    by (auto simp: re_match_def split: option.splits)
  let ?r2 = "dropWhile is_space r1"
  from assms r1 have g: "takeWhile cls ?r2 \<noteq> []"
    and r4: "strip_prefix suffix (dropWhile cls ?r2) = Some r"
    by (auto simp: re_match_def Let_def split: option.splits if_splits)
  have "length (takeWhile cls ?r2) + length (dropWhile cls ?r2) = length ?r2"
    by (metis length_append takeWhile_dropWhile_id)
  moreover have "0 < length (takeWhile cls ?r2)"
    using g by simp
  ultimately have "length (dropWhile cls ?r2) < length ?r2"
    by linarith
  moreover have "length ?r2 \<le> length r1"
    by (rule length_dropWhile_le)
  moreover have "length r1 \<le> length s"
    using r1 by (rule strip_prefix_length)
  moreover have "length r \<le> length (dropWhile cls ?r2)"
    using r4 by (rule strip_prefix_length)
  ultimately show ?thesis
    by linarith
qed

text \<open>
  \<open>re.findall\<close>: scan from the left; after a match go on behind it, otherwise one
  character further. Every match is non-empty.
\<close>

function re_findall ::
  "string \<Rightarrow> (char \<Rightarrow> bool) \<Rightarrow> string \<Rightarrow> string \<Rightarrow> string list" where
  "re_findall key cls suffix [] = []"
| "re_findall key cls suffix (c # cs) =
     (case re_match key cls suffix (c # cs) of
        Some (g, r) \<Rightarrow> g # re_findall key cls suffix r
      | None \<Rightarrow> re_findall key cls suffix cs)"
  by pat_completeness auto
termination
  by (relation "measure (\<lambda>(key, cls, suffix, s). length s)")
     (auto dest: re_match_shorter)

text \<open>
  \<open>_count_dropped_frames\<close>: \<open>drop_pattern = r'drop=\s*([0-9]+)'\<close>; with matches,
  \<open>max(int(x) for x in matches)\<close>, which starts from the first value and keeps the
  larger one; without, 0.
\<close>

definition count_dropped_frames :: "string \<Rightarrow> int" where
  "count_dropped_frames log_content =
     (let matches = re_findall ''drop='' is_digit [] log_content
      in case map int_of_digits matches of
           [] \<Rightarrow> 0
         | v # vs \<Rightarrow> foldl max v vs)"

section \<open>analyze-results.py: the output-artifact tree\<close>

text \<open>
  A snapshot of a directory tree as \<open>pathlib\<close> shows it: a regular file with its name and
  \<open>st_size\<close>, or a directory with its name, its own \<open>st_size\<close> and its entries in
  \<open>iterdir\<close> order. The analyzer reads a finished run, so the snapshot does not change
  while it is read.
\<close>

datatype node = File string nat | Dir string nat "node list"

fun node_name :: "node \<Rightarrow> string" where
  "node_name (File n _) = n"
| "node_name (Dir n _ _) = n"

fun is_dir :: "node \<Rightarrow> bool" where
  "is_dir (File _ _) = False"
| "is_dir (Dir _ _ _) = True"

fun st_size :: "node \<Rightarrow> nat" where
  "st_size (File _ sz) = sz"
| "st_size (Dir _ sz _) = sz"

fun entries :: "node \<Rightarrow> node list" where
  "entries (File _ _) = []"
| "entries (Dir _ _ es) = es"

text \<open>\<open>d / name\<close>: the entry of that name, if it exists.\<close>

definition child :: "node \<Rightarrow> string \<Rightarrow> node option" where
  "child d name = find (\<lambda>e. node_name e = name) (entries d)"

text \<open>
  \<open>sum(f.stat().st_size for f in d.rglob('*') if f.is_file())\<close> is \<open>files_size d\<close> for a
  directory \<open>d\<close>: the sizes of all regular files below it.
\<close>

fun files_size :: "node \<Rightarrow> nat" where
  "files_size (File _ sz) = sz"
| "files_size (Dir _ _ es) = sum_list (map files_size es)"

text \<open>
  The per-engine dictionary of \<open>analyze_output_quality\<close>. The key \<open>success_rate\<close> is
  added at the end, so it is optional here; \<open>total_size_mb\<close> starts as the int 0 and
  becomes a float with the first successful stream.
\<close>

record engine_quality =
  successful_streams :: int
  failed_streams :: int
  total_size_mb :: pynum
  success_rate :: "pynum option"

record output_quality =
  nvenc1 :: engine_quality
  nvenc2 :: engine_quality

definition engine_init :: engine_quality where
  "engine_init = \<lparr>successful_streams = 0, failed_streams = 0, total_size_mb = PyInt 0,
                   success_rate = None\<rparr>"

text \<open>The playlist test: \<open>playlist_file.exists() and playlist_file.stat().st_size > 0\<close>.\<close>

definition playlist_ok :: "node \<Rightarrow> bool" where
  "playlist_ok stream_dir =
     (case child stream_dir ''playlist.m3u8'' of
        None \<Rightarrow> False
      | Some playlist_file \<Rightarrow> 0 < st_size playlist_file)"

definition is_stream_dir :: "node \<Rightarrow> bool" where
  "is_stream_dir stream_dir = (is_dir stream_dir \<and> starts_with ''stream'' (node_name stream_dir))"

text \<open>The body of the loop over \<open>iterdir()\<close>, on the engine's dictionary.\<close>

definition scan_stream :: "engine_quality \<Rightarrow> node \<Rightarrow> engine_quality" where
  "scan_stream a stream_dir =
     (if is_stream_dir stream_dir then
        (if playlist_ok stream_dir then
           a\<lparr>successful_streams := successful_streams a + 1,
             total_size_mb :=
               py_add (total_size_mb a)
                 (PyFloat (of_nat (files_size stream_dir) / (1024 * 1024)))\<rparr>
         else a\<lparr>failed_streams := failed_streams a + 1\<rparr>)
      else a)"

text \<open>
  One engine's block: nothing is counted when the engine directory does not exist;
  \<open>iterdir()\<close> raises \<open>NotADirectoryError\<close> (an \<open>OSError\<close>) when it is a regular file.
\<close>

definition scan_engine :: "node option \<Rightarrow> string \<Rightarrow> py_error + engine_quality" where
  "scan_engine output_dir name =
     (case (case output_dir of None \<Rightarrow> None | Some d \<Rightarrow> child d name) of
        None \<Rightarrow> Inr engine_init
      | Some (File _ _) \<Rightarrow> Inl OSError
      | Some (Dir _ _ es) \<Rightarrow> Inr (foldl scan_stream engine_init es))"

text \<open>Lines 139-150: the guarded division.\<close>

definition set_success_rate :: "engine_quality \<Rightarrow> engine_quality" where
  "set_success_rate a =
     (let total = successful_streams a + failed_streams a
      in if total > 0
         then a\<lparr>success_rate :=
                  Some (PyFloat (of_int (successful_streams a) / of_int total * 100))\<rparr>
         else a\<lparr>success_rate := Some (PyInt 0)\<rparr>)"

text \<open>\<open>output_dir\<close> is \<open>None\<close> when the path does not exist.\<close>

definition analyze_output_quality :: "node option \<Rightarrow> py_error + output_quality" where
  "analyze_output_quality output_dir =
     (case scan_engine output_dir ''nvenc1'' of
        Inl e \<Rightarrow> Inl e
      | Inr a1 \<Rightarrow>
          (case scan_engine output_dir ''nvenc2'' of
             Inl e \<Rightarrow> Inl e
           | Inr a2 \<Rightarrow>
               Inr \<lparr>nvenc1 = set_success_rate a1, nvenc2 = set_success_rate a2\<rparr>))"

section \<open>analyze-results.py: the report and its grade\<close>





















section \<open>analyze-results.py: from the persisted run to the report\<close>

text \<open>\<open>s.count(pat)\<close>: occurrences from the left that do not overlap.\<close>

function count_sub :: "string \<Rightarrow> string \<Rightarrow> nat" where
  "count_sub [] s = Suc (length s)"
| "count_sub (p # ps) [] = 0"
| "count_sub (p # ps) (c # cs) =
     (case strip_prefix (p # ps) (c # cs) of
        Some r \<Rightarrow> Suc (count_sub (p # ps) r)
      | None \<Rightarrow> count_sub (p # ps) cs)"
  by pat_completeness auto
termination
  by (relation "measure (\<lambda>(pat, s). length s)")
     (auto split: if_splits dest: strip_prefix_length)

text \<open>\<open>pat in s\<close>.\<close>

definition py_in :: "string \<Rightarrow> string \<Rightarrow> bool" where
  "py_in pat s = (0 < count_sub pat s)"













text \<open>
  \<open>float(x)\<close> on a match of \<open>[0-9.]+\<close>: digits with at most one point and at least one
  digit, else \<open>ValueError\<close>.
\<close>

definition float_of_decimal :: "string \<Rightarrow> rat option" where
  "float_of_decimal x =
     (let ip = takeWhile is_digit x;
          r = dropWhile is_digit x
      in case r of
           [] \<Rightarrow> (if ip = [] then None else Some (of_int (int_of_digits ip)))
         | c # fp \<Rightarrow>
             (if c = CHR ''.'' \<and> list_all is_digit fp \<and> (ip \<noteq> [] \<or> fp \<noteq> [])
              then Some (of_int (int_of_digits ip)
                         + of_int (int_of_digits fp) / 10 ^ length fp)
              else None))"







section \<open>monitor-concurrent.py: the hardware-counter queries\<close>

text \<open>
  The functions of Python's library that the model leaves open: \<open>int(s)\<close> and
  \<open>float(s)\<close> (\<open>None\<close> when they raise \<open>ValueError\<close>), \<open>isoformat()\<close> and
  \<open>strftime("%Y%m%d_%H%M%S")\<close> of a clock reading.
\<close>

record pylib =
  int_of :: "string \<Rightarrow> int option"
  float_of :: "string \<Rightarrow> pynum option"
  isoformat :: "rat \<Rightarrow> string"
  strftime :: "rat \<Rightarrow> string"

text \<open>
  For concrete runs: \<open>int\<close> and \<open>float\<close> on plain unsigned decimals, which is all the
  examples below feed them (Python's own accept signs, exponents and more), and a clock
  printed as its number of whole seconds.
\<close>

definition plain_int :: "string \<Rightarrow> int option" where
  "plain_int s = (if s \<noteq> [] \<and> list_all is_digit s then Some (int_of_digits s) else None)"

definition plain_float :: "string \<Rightarrow> pynum option" where
  "plain_float s = map_option PyFloat (float_of_decimal s)"

fun digits_of :: "nat \<Rightarrow> nat \<Rightarrow> string" where
  "digits_of 0 n = []"
| "digits_of (Suc k) n = digits_of k (n div 10) @ [char_of (48 + n mod 10)]"

definition seconds_string :: "rat \<Rightarrow> string" where
  "seconds_string t = digits_of 10 (nat \<lfloor>t\<rfloor>)"

definition plain_lib :: pylib where
  "plain_lib = \<lparr>int_of = plain_int, float_of = plain_float,
                 isoformat = seconds_string, strftime = seconds_string\<rparr>"

text \<open>\<open>values[i].strip()\<close>; \<open>None\<close> is the \<open>IndexError\<close>.\<close>

definition field :: "string list \<Rightarrow> nat \<Rightarrow> string option" where
  "field values i = (if i < length values then Some (py_strip (values ! i)) else None)"

text \<open>\<open>int(x) if x != '[N/A]' else 0\<close> and \<open>float(x) if x != '[N/A]' else 0\<close>.\<close>

definition int_or_zero :: "pylib \<Rightarrow> string \<Rightarrow> pyval option" where
  "int_or_zero lib x =
     (if x \<noteq> ''[N/A]'' then map_option (\<lambda>i. PNum (PyInt i)) (int_of lib x)
      else Some (PNum (PyInt 0)))"

definition float_or_zero :: "pylib \<Rightarrow> string \<Rightarrow> pyval option" where
  "float_or_zero lib x =
     (if x \<noteq> ''[N/A]'' then map_option PNum (float_of lib x) else Some (PNum (PyInt 0)))"

text \<open>
  \<open>get_gpu_info\<close>. The argument is what \<open>subprocess.run(..., check=True)\<close> gives:
  an exception, or the standard output. Every exception inside the \<open>try\<close> (the failed
  query, a missing field, a number that does not parse, the division by a zero
  \<open>memory_total_mb\<close>) ends in \<open>return None\<close>.
\<close>

definition get_gpu_info :: "pylib \<Rightarrow> py_error + string \<Rightarrow> dict option" where
  "get_gpu_info lib result =
     (case result of
        Inl e \<Rightarrow> None
      | Inr stdout \<Rightarrow>
          (let values = split_on CHR '','' (py_strip stdout) in
           do {
             v0 \<leftarrow> field values 0;
             v1 \<leftarrow> field values 1;
             total \<leftarrow> Option.bind (field values 2) (int_of lib);
             used \<leftarrow> Option.bind (field values 3) (int_of lib);
             free \<leftarrow> Option.bind (field values 4) (int_of lib);
             util \<leftarrow> Option.bind (field values 5) (float_or_zero lib);
             mem_util \<leftarrow> Option.bind (field values 6) (float_or_zero lib);
             temp \<leftarrow> Option.bind (field values 7) (int_or_zero lib);
             power \<leftarrow> Option.bind (field values 8) (float_or_zero lib);
             gpu_clock \<leftarrow> Option.bind (field values 9) (int_or_zero lib);
             mem_clock \<leftarrow> Option.bind (field values 10) (int_or_zero lib);
             memory_percent \<leftarrow>
               (if total = 0 then None else Some (of_int used / of_int total * 100));
             Some [(''timestamp'', PStr v0),
                   (''gpu_name'', PStr v1),
                   (''memory_total_mb'', PNum (PyInt total)),
                   (''memory_used_mb'', PNum (PyInt used)),
                   (''memory_free_mb'', PNum (PyInt free)),
                   (''gpu_utilization_%'', util),
                   (''memory_utilization_%'', mem_util),
                   (''temperature_c'', temp),
                   (''power_draw_w'', power),
                   (''gpu_clock_mhz'', gpu_clock),
                   (''memory_clock_mhz'', mem_clock),
                   (''memory_percent'', PNum (PyFloat memory_percent))]
           }))"

text \<open>The six guarded fields of the GPU query and the three of the encoder query.\<close>

definition guarded_gpu_fields :: "(nat \<times> string) list" where
  "guarded_gpu_fields =
     [(5, ''gpu_utilization_%''), (6, ''memory_utilization_%''), (7, ''temperature_c''),
      (8, ''power_draw_w''), (9, ''gpu_clock_mhz''), (10, ''memory_clock_mhz'')]"

text \<open>Of the six, the ones converted with \<open>float\<close> and the ones converted with \<open>int\<close>.\<close>

definition guarded_float_fields :: "(nat \<times> string) list" where
  "guarded_float_fields =
     [(5, ''gpu_utilization_%''), (6, ''memory_utilization_%''), (8, ''power_draw_w'')]"

definition guarded_int_fields :: "(nat \<times> string) list" where
  "guarded_int_fields =
     [(7, ''temperature_c''), (9, ''gpu_clock_mhz''), (10, ''memory_clock_mhz'')]"

definition encoder_fields :: "(nat \<times> string) list" where
  "encoder_fields =
     [(0, ''encoder_sessions''), (1, ''encoder_avg_fps''), (2, ''encoder_avg_latency_ms'')]"

definition encoder_defaults :: dict where
  "encoder_defaults =
     [(''encoder_sessions'', PNum (PyInt 0)),
      (''encoder_avg_fps'', PNum (PyInt 0)),
      (''encoder_avg_latency_ms'', PNum (PyInt 0))]"

text \<open>
  \<open>get_nvenc_encoder_stats\<close>. The argument is an exception of \<open>subprocess.run\<close>, or
  the return code and the standard output. The bare \<open>except\<close> and the two failed tests
  all lead to the dictionary of zeros.
\<close>

definition get_nvenc_encoder_stats :: "pylib \<Rightarrow> py_error + int \<times> string \<Rightarrow> dict" where
  "get_nvenc_encoder_stats lib result =
     (case result of
        Inl e \<Rightarrow> encoder_defaults
      | Inr (returncode, stdout) \<Rightarrow>
          if returncode = 0 \<and> py_strip stdout \<noteq> [] then
            (let values = split_on CHR '','' (py_strip stdout) in
             case do {
                    sessions \<leftarrow> Option.bind (field values 0) (int_or_zero lib);
                    fps \<leftarrow> Option.bind (field values 1) (float_or_zero lib);
                    latency \<leftarrow> Option.bind (field values 2) (float_or_zero lib);
                    Some [(''encoder_sessions'', sessions),
                          (''encoder_avg_fps'', fps),
                          (''encoder_avg_latency_ms'', latency)]
                  } of
               None \<Rightarrow> encoder_defaults
             | Some d \<Rightarrow> d)
          else encoder_defaults)"

section \<open>monitor-concurrent.py: the workload processes\<close>

text \<open>
  One entry of \<open>psutil.process_iter\<close> as \<open>get_ffmpeg_processes\<close> reads it. \<open>cmdline\<close>
  is the argument list (empty when psutil gives none), \<open>rss\<close> and \<open>create_time\<close> are
  \<open>None\<close> when psutil has no value, and \<open>vanished\<close> says that the process is gone
  when \<open>proc.cpu_percent()\<close> is called (\<open>NoSuchProcess\<close>: the entry is skipped).
\<close>

record os_process =
  os_pid :: int
  os_name :: string
  cmdline :: "string list"
  os_cpu_percent :: rat
  rss :: "nat option"
  create_time :: "rat option"
  vanished :: bool

text \<open>\<open>' '.join(words)\<close>.\<close>

fun join_spaces :: "string list \<Rightarrow> string" where
  "join_spaces [] = []"
| "join_spaces [w] = w"
| "join_spaces (w # ws) = w @ '' '' @ join_spaces ws"

text \<open>
  The body of the loop for one process: the entry it appends, if any. \<open>now\<close> is
  \<open>time.time()\<close>.
\<close>

definition ffmpeg_entry :: "rat \<Rightarrow> os_process \<Rightarrow> process_info option" where
  "ffmpeg_entry now proc =
     (if os_name proc = ''ffmpeg'' \<and> cmdline proc \<noteq> [] then
        (let cmd = join_spaces (cmdline proc) in
         if py_in ''h264_nvenc'' cmd then
           (if vanished proc then None
            else Some \<lparr>pid = os_pid proc,
                       input_streams = int (count_sub '' -i '' cmd),
                       cpu_percent = os_cpu_percent proc,
                       memory_mb =
                         (case rss proc of
                            None \<Rightarrow> PyInt 0
                          | Some b \<Rightarrow> PyFloat (of_nat b / 1024 / 1024)),
                       runtime_seconds =
                         (case create_time proc of
                            None \<Rightarrow> PyInt 0
                          | Some t \<Rightarrow> if t = 0 then PyInt 0 else PyFloat (now - t)),
                       cmdline_sample =
                         (if length cmd > 200 then take 200 cmd @ ''...'' else cmd)\<rparr>)
         else None)
      else None)"

definition get_ffmpeg_processes :: "rat \<Rightarrow> os_process list \<Rightarrow> process_info list" where
  "get_ffmpeg_processes now procs = List.map_filter (ffmpeg_entry now) procs"

text \<open>The dictionary of one entry, as it is stored in the Sample.\<close>

definition process_dict :: "process_info \<Rightarrow> pyval" where
  "process_dict p =
     PDict [(''pid'', PNum (PyInt (pid p))),
            (''input_streams'', PNum (PyInt (input_streams p))),
            (''cpu_percent'', PNum (PyFloat (cpu_percent p))),
            (''memory_mb'', PNum (memory_mb p)),
            (''runtime_seconds'', PNum (runtime_seconds p)),
            (''cmdline_sample'', PStr (cmdline_sample p))]"

definition util_dict :: "nvenc_util \<Rightarrow> dict" where
  "util_dict u =
     [(''nvenc1_estimated_load'', PNum (PyInt (nvenc1_estimated_load u))),
      (''nvenc2_estimated_load'', PNum (PyInt (nvenc2_estimated_load u))),
      (''total_concurrent_streams'', PNum (PyInt (total_concurrent_streams u)))]"

section \<open>monitor-concurrent.py: the output-artifact scan\<close>

text \<open>
  What the calls on the output directory return while \<open>get_hls_output_stats\<close> runs.
  Each may raise: the directory can change or be unreadable under the scan. A file of
  \<open>rglob("*")\<close> answers \<open>is_file()\<close> and \<open>stat().st_size\<close>.
\<close>

record file_probe =
  probe_is_file :: "py_error + bool"
  probe_size :: "py_error + nat"

record output_probe =
  path_exists :: "py_error + bool"
  rglob_m3u8 :: "py_error + nat"
  rglob_ts :: "py_error + nat"
  rglob_all :: "py_error + file_probe list"

text \<open>The loop that adds up \<open>total_size\<close>.\<close>

fun sum_sizes :: "file_probe list \<Rightarrow> nat \<Rightarrow> py_error + nat" where
  "sum_sizes [] total_size = Inr total_size"
| "sum_sizes (f # fs) total_size =
     (case probe_is_file f of
        Inl e \<Rightarrow> Inl e
      | Inr False \<Rightarrow> sum_sizes fs total_size
      | Inr True \<Rightarrow>
          (case probe_size f of
             Inl e \<Rightarrow> Inl e
           | Inr sz \<Rightarrow> sum_sizes fs (total_size + sz)))"

text \<open>\<open>a / b\<close> on ints: \<open>ZeroDivisionError\<close> for \<open>b = 0\<close>, else a float.\<close>

definition py_truediv :: "int \<Rightarrow> int \<Rightarrow> py_error + pynum" where
  "py_truediv a b = (if b = 0 then Inl ZeroDivisionError else Inr (PyFloat (of_int a / of_int b)))"

text \<open>The body of the \<open>try\<close>.\<close>

definition hls_scan :: "output_probe \<Rightarrow> py_error + dict" where
  "hls_scan p =
     (case path_exists p of
        Inl e \<Rightarrow> Inl e
      | Inr False \<Rightarrow>
          Inr [(''total_playlists'', PNum (PyInt 0)),
               (''total_segments'', PNum (PyInt 0)),
               (''total_size_mb'', PNum (PyInt 0))]
      | Inr True \<Rightarrow>
          (case rglob_m3u8 p of
             Inl e \<Rightarrow> Inl e
           | Inr playlist_count \<Rightarrow>
               (case rglob_ts p of
                  Inl e \<Rightarrow> Inl e
                | Inr segment_count \<Rightarrow>
                    (case rglob_all p of
                       Inl e \<Rightarrow> Inl e
                     | Inr files \<Rightarrow>
                         (case sum_sizes files 0 of
                            Inl e \<Rightarrow> Inl e
                          | Inr total_size \<Rightarrow>
                              (case (if playlist_count > 0
                                     then py_truediv (int segment_count) (int playlist_count)
                                     else Inr (PyInt 0)) of
                                 Inl e \<Rightarrow> Inl e
                               | Inr avg \<Rightarrow>
                                   Inr [(''total_playlists'', PNum (PyInt (int playlist_count))),
                                        (''total_segments'', PNum (PyInt (int segment_count))),
                                        (''total_size_mb'',
                                           PNum (PyFloat (of_nat total_size / 1024 / 1024))),
                                        (''avg_segments_per_playlist'', PNum avg)]))))))"

definition hls_fallback :: dict where
  "hls_fallback =
     [(''total_playlists'', PNum (PyInt 0)),
      (''total_segments'', PNum (PyInt 0)),
      (''total_size_mb'', PNum (PyInt 0)),
      (''avg_segments_per_playlist'', PNum (PyInt 0))]"

text \<open>\<open>try: body except Exception: handler\<close>.\<close>

definition try_except :: "py_error + 'a \<Rightarrow> (py_error \<Rightarrow> py_error + 'a) \<Rightarrow> py_error + 'a" where
  "try_except body handler = (case body of Inl e \<Rightarrow> handler e | Inr v \<Rightarrow> Inr v)"

definition get_hls_output_stats :: "output_probe \<Rightarrow> py_error + dict" where
  "get_hls_output_stats p = try_except (hls_scan p) (\<lambda>e. Inr hls_fallback)"

section \<open>monitor-concurrent.py: the host snapshot\<close>

text \<open>
  What psutil reports to \<open>get_system_info\<close>: the total and per-core CPU percentages,
  \<open>cpu_count()\<close> (which may be \<open>None\<close>), the fields of \<open>virtual_memory()\<close>, and
  \<open>getloadavg()\<close> (\<open>None\<close> where psutil has no such function).
\<close>

record sys_reading =
  cpu_percent_total :: rat
  cpu_per_core :: "rat list"
  cpu_count :: "int option"
  mem_total :: nat
  mem_used :: nat
  mem_available :: nat
  mem_percent :: rat
  loadavg :: "(rat \<times> rat \<times> rat) option"

text \<open>\<open>get_system_info\<close>: the empty dictionary when psutil raises.\<close>

definition get_system_info :: "py_error + sys_reading \<Rightarrow> dict" where
  "get_system_info reading =
     (case reading of
        Inl e \<Rightarrow> []
      | Inr r \<Rightarrow>
          [(''cpu_percent_total'', PNum (PyFloat (cpu_percent_total r))),
           (''cpu_cores_count'',
              (case cpu_count r of None \<Rightarrow> PNone | Some n \<Rightarrow> PNum (PyInt n))),
           (''cpu_cores_usage'', PList (map (\<lambda>x. PNum (PyFloat x)) (cpu_per_core r))),
           (''cpu_max_core'',
              (case cpu_per_core r of
                 [] \<Rightarrow> PNum (PyInt 0)
               | x # xs \<Rightarrow> PNum (PyFloat (foldl max x xs)))),
           (''memory_total_gb'', PNum (PyFloat (of_nat (mem_total r) / 1024 ^ 3))),
           (''memory_used_gb'', PNum (PyFloat (of_nat (mem_used r) / 1024 ^ 3))),
           (''memory_available_gb'', PNum (PyFloat (of_nat (mem_available r) / 1024 ^ 3))),
           (''memory_percent'', PNum (PyFloat (mem_percent r))),
           (''load_average'',
              (case loadavg r of
                 None \<Rightarrow> PList [PNum (PyInt 0), PNum (PyInt 0), PNum (PyInt 0)]
               | Some (a, b, c) \<Rightarrow>
                   PTuple [PNum (PyFloat a), PNum (PyFloat b), PNum (PyFloat c)]))])"

section \<open>monitor-concurrent.py: one Sample\<close>

text \<open>
  What one tick finds outside the program: the answers of the two \<open>nvidia-smi\<close>
  queries, the list \<open>get_compute_processes\<close> returns (taken as it comes), the process
  table, the host readings, the output directory, the time the tick's work takes, and
  whether a stop signal arrives during the tick.
\<close>

record tick_inputs =
  gpu_query :: "py_error + string"
  encoder_query :: "py_error + int \<times> string"
  compute_processes :: "pyval list"
  os_processes :: "os_process list"
  system_reading :: "py_error + sys_reading"
  output_state :: output_probe
  work :: rat
  stop_signal :: bool

text \<open>
  \<open>collect_data\<close>, with \<open>now\<close> the clock at its first line. The model reads the clock
  once per tick.
\<close>

definition collect_data :: "pylib \<Rightarrow> rat \<Rightarrow> tick_inputs \<Rightarrow> py_error + dict" where
  "collect_data lib now t =
     (let data_point = [(''timestamp'', PStr (isoformat lib now)),
                        (''unix_timestamp'', PNum (PyFloat now))];
          data_point = (case get_gpu_info lib (gpu_query t) of
                          None \<Rightarrow> data_point
                        | Some gpu_info \<Rightarrow> dict_update data_point gpu_info);
          data_point = dict_update data_point (get_nvenc_encoder_stats lib (encoder_query t));
          ffmpeg_processes = get_ffmpeg_processes now (os_processes t);
          data_point = dict_set ''compute_processes'' (PList (compute_processes t)) data_point;
          data_point = dict_set ''ffmpeg_processes''
                         (PList (map process_dict ffmpeg_processes)) data_point;
          data_point = dict_set ''total_ffmpeg_processes''
                         (PNum (PyInt (int (length ffmpeg_processes)))) data_point;
          data_point = dict_set ''total_compute_processes''
                         (PNum (PyInt (int (length (compute_processes t))))) data_point;
          data_point = dict_update data_point
                         (util_dict (detect_nvenc_utilization ffmpeg_processes));
          data_point = dict_update data_point (get_system_info (system_reading t))
      in case get_hls_output_stats (output_state t) of
           Inl e \<Rightarrow> Inl e
         | Inr hls_stats \<Rightarrow> Inr (dict_update data_point hls_stats))"

section \<open>monitor-concurrent.py: saving the run\<close>

text \<open>
  The files the monitor writes, by name, with what was dumped into each: the CSV's
  header and rows (a cell is \<open>None\<close> where the row has no value for the column), the
  JSON array of Samples, the analysis. \<open>can_open\<close> says whether \<open>open(name, 'w')\<close>
  succeeds.
\<close>

datatype file_content =
    CsvFile "string list" "pyval option list list"
  | JsonRun "dict list"
  | JsonAnalysis dict

record disk =
  files :: "string \<rightharpoonup> file_content"
  can_open :: "string \<Rightarrow> bool"

definition write_file :: "disk \<Rightarrow> string \<Rightarrow> file_content \<Rightarrow> disk" where
  "write_file d name content = d\<lparr>files := (files d)(name \<mapsto> content)\<rparr>"

definition err_bind :: "py_error + 'a \<Rightarrow> ('a \<Rightarrow> py_error + 'b) \<Rightarrow> py_error + 'b" where
  "err_bind m f = (case m of Inl e \<Rightarrow> Inl e | Inr v \<Rightarrow> f v)"

fun is_list_or_dict :: "pyval \<Rightarrow> bool" where
  "is_list_or_dict (PList _) = True"
| "is_list_or_dict (PDict _) = True"
| "is_list_or_dict _ = False"

fun py_len :: "pyval \<Rightarrow> py_error + nat" where
  "py_len (PList xs) = Inr (length xs)"
| "py_len (PTuple xs) = Inr (length xs)"
| "py_len (PDict kvs) = Inr (length kvs)"
| "py_len (PStr s) = Inr (length s)"
| "py_len (PNum _) = Inl TypeError"
| "py_len PNone = Inl TypeError"

text \<open>The flattening of one Sample in \<open>save_data_csv\<close>.\<close>

definition flatten_point :: "dict \<Rightarrow> py_error + dict" where
  "flatten_point point =
     (let flat_point = filter (\<lambda>kv. \<not> is_list_or_dict (snd kv)) point;
          flat_point = dict_set ''total_streams''
                         (dict_get point ''total_concurrent_streams'' py_int0) flat_point;
          flat_point = dict_set ''nvenc1_load''
                         (dict_get point ''nvenc1_estimated_load'' py_int0) flat_point;
          flat_point = dict_set ''nvenc2_load''
                         (dict_get point ''nvenc2_estimated_load'' py_int0) flat_point
      in err_bind (py_len (dict_get point ''ffmpeg_processes'' (PList []))) (\<lambda>n_ffmpeg.
         err_bind (py_len (dict_get point ''compute_processes'' (PList []))) (\<lambda>n_compute.
           Inr (dict_set ''compute_process_count'' (PNum (PyInt (int n_compute)))
                 (dict_set ''ffmpeg_process_count'' (PNum (PyInt (int n_ffmpeg)))
                    flat_point)))))"

fun flatten_all :: "dict list \<Rightarrow> py_error + dict list" where
  "flatten_all [] = Inr []"
| "flatten_all (p # ps) =
     err_bind (flatten_point p) (\<lambda>f. err_bind (flatten_all ps) (\<lambda>fs. Inr (f # fs)))"

text \<open>
  \<open>DictWriter.writerows\<close>: rows are written until one has a key that is no column,
  which raises \<open>ValueError\<close>; a column the row lacks is written empty.
\<close>

fun write_rows :: "string list \<Rightarrow> dict list \<Rightarrow> pyval option list list \<times> py_error option" where
  "write_rows header [] = ([], None)"
| "write_rows header (r # rs) =
     (if list_all (\<lambda>k. k \<in> set header) (map fst r)
      then (let (ws, e) = write_rows header rs in (map (map_of r) header # ws, e))
      else ([], Some ValueError))"

text \<open>
  The three saving functions return the exception they raise, if any, and the disk
  after them.
\<close>

definition save_data_csv :: "disk \<Rightarrow> dict list \<Rightarrow> string \<Rightarrow> py_error option \<times> disk" where
  "save_data_csv d data_points filename =
     (if data_points = [] then (None, d)
      else
        let csv_file = filename @ ''.csv'' in
        case flatten_all data_points of
          Inl e \<Rightarrow> (Some e, d)
        | Inr flattened_data \<Rightarrow>
            if \<not> can_open d csv_file then (Some OSError, d)
            else (case flattened_data of
                    [] \<Rightarrow> (None, write_file d csv_file (CsvFile [] []))
                  | first # _ \<Rightarrow>
                      let header = map fst first;
                          (rows, e) = write_rows header flattened_data
                      in (e, write_file d csv_file (CsvFile header rows))))"

definition save_data_json :: "disk \<Rightarrow> dict list \<Rightarrow> string \<Rightarrow> py_error option \<times> disk" where
  "save_data_json d data_points filename =
     (let json_file = filename @ ''.json'' in
      if \<not> can_open d json_file then (Some OSError, d)
      else (None, write_file d json_file (JsonRun data_points)))"


section \<open>monitor-concurrent.py: the analysis of a run\<close>

text \<open>Comparison of two numbers; false when one is NaN.\<close>

definition num_rat :: "pynum \<Rightarrow> rat option" where
  "num_rat a = (case a of PyInt i \<Rightarrow> Some (of_int i) | PyFloat x \<Rightarrow> Some x | PyNaN \<Rightarrow> None)"

definition py_gt :: "pynum \<Rightarrow> pynum \<Rightarrow> bool" where
  "py_gt a b = (case (num_rat a, num_rat b) of (Some x, Some y) \<Rightarrow> y < x | _ \<Rightarrow> False)"

text \<open>
  The numbers of a list of values. The columns read below hold numbers in every Sample
  \<open>collect_data\<close> builds; any other value is taken to raise \<open>TypeError\<close>, as \<open>sum\<close> does.
\<close>

fun nums_of :: "pyval list \<Rightarrow> py_error + pynum list" where
  "nums_of [] = Inr []"
| "nums_of (PNum n # vs) = err_bind (nums_of vs) (\<lambda>ns. Inr (n # ns))"
| "nums_of (_ # vs) = Inl TypeError"

text \<open>\<open>[p.get(key, 0) for p in self.data_points]\<close>.\<close>

definition column :: "string \<Rightarrow> dict list \<Rightarrow> py_error + pynum list" where
  "column key data_points = nums_of (map (\<lambda>p. dict_get p key py_int0) data_points)"

definition py_sum :: "pynum list \<Rightarrow> pynum" where
  "py_sum xs = foldl py_add (PyInt 0) xs"

text \<open>\<open>max(xs)\<close> and \<open>min(xs)\<close> keep the first of equal items and raise on an empty list.\<close>

definition py_max :: "pynum list \<Rightarrow> py_error + pynum" where
  "py_max xs =
     (case xs of
        [] \<Rightarrow> Inl ValueError
      | x # rest \<Rightarrow> Inr (foldl (\<lambda>m y. if py_gt y m then y else m) x rest))"

definition py_min :: "pynum list \<Rightarrow> py_error + pynum" where
  "py_min xs =
     (case xs of
        [] \<Rightarrow> Inl ValueError
      | x # rest \<Rightarrow> Inr (foldl (\<lambda>m y. if py_gt m y then y else m) x rest))"

text \<open>\<open>a / len(xs)\<close>.\<close>

definition py_div_len :: "pynum \<Rightarrow> nat \<Rightarrow> py_error + pynum" where
  "py_div_len a n = (if n = 0 then Inl ZeroDivisionError else Inr (py_div_int a (int n)))"

text \<open>\<open>sum(1 for x in xs if P x)\<close>.\<close>

definition count_where :: "('a \<Rightarrow> bool) \<Rightarrow> 'a list \<Rightarrow> pynum" where
  "count_where P xs = PyInt (int (length (filter P xs)))"

text \<open>\<open>max(xs) if xs else 0\<close> and \<open>sum(xs) / len(xs) if xs else 0\<close>.\<close>

definition max_or_zero :: "pynum list \<Rightarrow> py_error + pynum" where
  "max_or_zero xs = (if xs \<noteq> [] then py_max xs else Inr (PyInt 0))"

definition avg_or_zero :: "pynum list \<Rightarrow> py_error + pynum" where
  "avg_or_zero xs = (if xs \<noteq> [] then py_div_len (py_sum xs) (length xs) else Inr (PyInt 0))"

definition gpu_utilization_section :: "dict list \<Rightarrow> py_error + pyval" where
  "gpu_utilization_section data_points =
     err_bind (column ''gpu_utilization_%'' data_points) (\<lambda>gpu_utils.
     err_bind (py_div_len (py_sum gpu_utils) (length gpu_utils)) (\<lambda>avg.
     err_bind (py_max gpu_utils) (\<lambda>mx.
     err_bind (py_min gpu_utils) (\<lambda>mn.
     err_bind (py_div_len (count_where (\<lambda>x. py_gt x (PyInt 50)) gpu_utils)
                 (length gpu_utils)) (\<lambda>stable.
       Inr (PDict [(''avg'', PNum avg), (''max'', PNum mx), (''min'', PNum mn),
                   (''stable_above_50'', PNum stable)]))))))"

definition memory_usage_section :: "dict list \<Rightarrow> py_error + pyval" where
  "memory_usage_section data_points =
     err_bind (column ''memory_percent'' data_points) (\<lambda>mem_percents.
     err_bind (py_div_len (py_sum mem_percents) (length mem_percents)) (\<lambda>avg.
     err_bind (py_max mem_percents) (\<lambda>mx.
     err_bind (column ''memory_used_mb'' data_points) (\<lambda>used.
     err_bind (py_max used) (\<lambda>max_mb.
       Inr (PDict [(''avg_percent'', PNum avg), (''max_percent'', PNum mx),
                   (''max_mb'', PNum max_mb)]))))))"

definition concurrent_streams_section :: "dict list \<Rightarrow> py_error + pyval" where
  "concurrent_streams_section data_points =
     err_bind (column ''total_concurrent_streams'' data_points) (\<lambda>stream_counts.
     err_bind (column ''nvenc1_estimated_load'' data_points) (\<lambda>nvenc1_loads.
     err_bind (column ''nvenc2_estimated_load'' data_points) (\<lambda>nvenc2_loads.
     err_bind (max_or_zero stream_counts) (\<lambda>max_total.
     err_bind (avg_or_zero stream_counts) (\<lambda>avg_total.
     err_bind (max_or_zero nvenc1_loads) (\<lambda>max1.
     err_bind (max_or_zero nvenc2_loads) (\<lambda>max2.
     err_bind (py_div_len
                 (count_where (\<lambda>(a, b). py_gt a (PyInt 0) \<and> py_gt b (PyInt 0))
                    (zip nvenc1_loads nvenc2_loads))
                 (length stream_counts)) (\<lambda>dual.
       Inr (PDict [(''max_total_streams'', PNum max_total),
                   (''avg_total_streams'', PNum avg_total),
                   (''max_nvenc1_load'', PNum max1),
                   (''max_nvenc2_load'', PNum max2),
                   (''dual_nvenc_utilization'', PNum dual)])))))))))"

definition thermal_power_section :: "dict list \<Rightarrow> py_error + pyval" where
  "thermal_power_section data_points =
     err_bind (column ''temperature_c'' data_points) (\<lambda>temps.
     err_bind (column ''power_draw_w'' data_points) (\<lambda>powers.
     err_bind (max_or_zero temps) (\<lambda>max_temp.
     err_bind (avg_or_zero temps) (\<lambda>avg_temp.
     err_bind (max_or_zero powers) (\<lambda>max_power.
     err_bind (avg_or_zero powers) (\<lambda>avg_power.
       Inr (PDict [(''max_temp_c'', PNum max_temp), (''avg_temp_c'', PNum avg_temp),
                   (''max_power_w'', PNum max_power), (''avg_power_w'', PNum avg_power)])))))))"

definition output_generation_section :: "dict list \<Rightarrow> py_error + pyval" where
  "output_generation_section data_points =
     err_bind (column ''total_playlists'' data_points) (\<lambda>playlist_counts.
     err_bind (column ''total_segments'' data_points) (\<lambda>segment_counts.
     err_bind (max_or_zero playlist_counts) (\<lambda>max_playlists.
     err_bind (max_or_zero segment_counts) (\<lambda>max_segments.
       Inr (PDict [(''max_playlists'', PNum max_playlists),
                   (''max_segments'', PNum max_segments),
                   (''final_output_size_mb'',
                      (if data_points \<noteq> []
                       then dict_get (last data_points) ''total_size_mb'' py_int0
                       else py_int0))])))))"

text \<open>\<open>analyze_concurrent_performance\<close>: \<open>{}\<close> for an empty run.\<close>

definition analyze_concurrent_performance :: "dict list \<Rightarrow> py_error + dict" where
  "analyze_concurrent_performance data_points =
     (if data_points = [] then Inr []
      else
        err_bind (gpu_utilization_section data_points) (\<lambda>gpu.
        err_bind (memory_usage_section data_points) (\<lambda>mem.
        err_bind (concurrent_streams_section data_points) (\<lambda>streams.
        err_bind (thermal_power_section data_points) (\<lambda>thermal.
        err_bind (output_generation_section data_points) (\<lambda>out.
          Inr [(''gpu_utilization'', gpu), (''memory_usage'', mem),
               (''concurrent_streams'', streams), (''thermal_power'', thermal),
               (''output_generation'', out)]))))))"

definition save_analysis :: "disk \<Rightarrow> dict list \<Rightarrow> string \<Rightarrow> py_error option \<times> disk" where
  "save_analysis d data_points filename =
     (case analyze_concurrent_performance data_points of
        Inl e \<Rightarrow> (Some e, d)
      | Inr analysis \<Rightarrow>
          if analysis = [] then (None, d)
          else
            let analysis_file = filename @ ''_analysis.json'' in
            if \<not> can_open d analysis_file then (Some OSError, d)
            else (None, write_file d analysis_file (JsonAnalysis analysis)))"

section \<open>monitor-concurrent.py: the sampling loop\<close>

text \<open>
  The \<open>finally\<close> block of \<open>monitor\<close>: the three saving functions, one after the other,
  under a name made of the prefix and the clock; an exception ends the block.
\<close>

definition save_all ::
  "pylib \<Rightarrow> disk \<Rightarrow> rat \<Rightarrow> dict list \<Rightarrow> string \<Rightarrow> py_error option \<times> disk" where
  "save_all lib d now data_points output_prefix =
     (let timestamp = strftime lib now;
          name = output_prefix @ ''_'' @ timestamp
      in case save_data_csv d data_points name of
           (Some e, d1) \<Rightarrow> (Some e, d1)
         | (None, d1) \<Rightarrow>
             (case save_data_json d1 data_points name of
                (Some e, d2) \<Rightarrow> (Some e, d2)
              | (None, d2) \<Rightarrow> save_analysis d2 data_points name))"

text \<open>
  The state of the loop: the wall clock (\<open>time.time()\<close>), \<open>self.running\<close> and
  \<open>self.data_points\<close>.
\<close>

record monitor_state =
  clock :: rat
  running :: bool
  data_points :: "dict list"

text \<open>\<open>duration and (time.time() - start_time) >= duration\<close>; a duration of 0 is no limit.\<close>

definition duration_reached :: "int option \<Rightarrow> rat \<Rightarrow> bool" where
  "duration_reached duration elapsed =
     (case duration of None \<Rightarrow> False | Some d \<Rightarrow> d \<noteq> 0 \<and> of_int d \<le> elapsed)"

text \<open>
  How the \<open>while\<close> loop ends: \<open>self.running\<close> is false at the test, the duration is
  reached, an exception leaves the loop; or the loop is still going when the list of
  ticks is used up.
\<close>

datatype loop_end = Stopped | DurationCompleted | Raised py_error | StillRunning

text \<open>
  One iteration per element of the list: collect a Sample (the clock is read at its
  first line), append it, print the status line (\<open>print_realtime_status\<close> only prints),
  let the tick's work take its time, test the duration, then
  \<open>time.sleep(self.interval)\<close>, which lasts \<open>interval\<close> seconds whatever the work took
  (a signal handler that returns does not shorten it) and raises \<open>ValueError\<close> on a
  negative value.
\<close>

fun monitor_loop ::
  "pylib \<Rightarrow> rat \<Rightarrow> int option \<Rightarrow> rat \<Rightarrow> tick_inputs list \<Rightarrow> monitor_state
     \<Rightarrow> loop_end \<times> monitor_state" where
  "monitor_loop lib interval duration start_time [] st =
     (if running st then (StillRunning, st) else (Stopped, st))"
| "monitor_loop lib interval duration start_time (t # ts) st =
     (if \<not> running st then (Stopped, st)
      else
        (case collect_data lib (clock st) t of
           Inl e \<Rightarrow> (Raised e, st\<lparr>clock := clock st + work t\<rparr>)
         | Inr data_point \<Rightarrow>
             let st1 = st\<lparr>clock := clock st + work t,
                          running := \<not> stop_signal t,
                          data_points := data_points st @ [data_point]\<rparr>
             in if duration_reached duration (clock st1 - start_time)
                then (DurationCompleted, st1)
                else if interval < 0 then (Raised ValueError, st1)
                else monitor_loop lib interval duration start_time ts
                       (st1\<lparr>clock := clock st1 + interval\<rparr>)))"

text \<open>
  \<open>monitor\<close>: the loop from \<open>self.running = True\<close> (unless a signal arrives before the
  first test), then the \<open>finally\<close> block. The result is how the loop ended, the Samples,
  the exception of the \<open>finally\<close> block if any, and the disk; \<open>None\<close> when the loop has
  not ended within the given ticks.
\<close>

definition monitor ::
  "pylib \<Rightarrow> disk \<Rightarrow> rat \<Rightarrow> int option \<Rightarrow> string \<Rightarrow> bool \<Rightarrow> rat \<Rightarrow> tick_inputs list
     \<Rightarrow> (loop_end \<times> dict list \<times> py_error option \<times> disk) option" where
  "monitor lib d interval duration output_prefix early_signal start_time ticks =
     (let st0 = \<lparr>clock = start_time, running = \<not> early_signal, data_points = []\<rparr>;
          (ending, st) = monitor_loop lib interval duration start_time ticks st0
      in if ending = StillRunning then None
         else (let (e, d') = save_all lib d (clock st) (data_points st) output_prefix
               in Some (ending, data_points st, e, d')))"

section \<open>Example inputs\<close>

text \<open>Three relevant processes, not in pid order.\<close>

definition three_processes :: "process_info list" where
  "three_processes =
     [\<lparr>pid = 30, input_streams = 4, cpu_percent = 0, memory_mb = PyInt 0,
       runtime_seconds = PyInt 0, cmdline_sample = []\<rparr>,
      \<lparr>pid = 10, input_streams = 2, cpu_percent = 0, memory_mb = PyInt 0,
       runtime_seconds = PyInt 0, cmdline_sample = []\<rparr>,
      \<lparr>pid = 20, input_streams = 3, cpu_percent = 0, memory_mb = PyInt 0,
       runtime_seconds = PyInt 0, cmdline_sample = []\<rparr>]"

text \<open>
  An output directory whose first engine has three streams with a non-empty playlist,
  one with an empty playlist and a stray file; the second engine has no directory.
\<close>

definition example_output :: node where
  "example_output =
     Dir ''output'' 4096
       [Dir ''nvenc1'' 4096
          [Dir ''stream1'' 4096 [File ''playlist.m3u8'' 120, File ''seg0.ts'' 1048576],
           Dir ''stream2'' 4096 [File ''playlist.m3u8'' 90],
           Dir ''stream3'' 4096 [File ''playlist.m3u8'' 0],
           File ''notes.txt'' 10,
           Dir ''stream4'' 4096
             [File ''playlist.m3u8'' 77, Dir ''sub'' 4096 [File ''a.ts'' 1048576]]]]"


text \<open>
  Two answers of the GPU query: one with utilization, temperature and memory clock
  not applicable, one that reports them as zero.
\<close>

definition na_response :: string where
  "na_response =
     ''2024/01/01 12:00:00.000, NVIDIA GeForce RTX 4090, 24564, 1024, 23540, [N/A], 3, [N/A], 55.20, 210, [N/A]''"

definition zero_response :: string where
  "zero_response =
     ''2024/01/01 12:00:00.000, NVIDIA GeForce RTX 4090, 24564, 1024, 23540, 0, 3, 0, 55.20, 210, 0''"


text \<open>
  A tick on an idle host: the GPU answers, no workload process, no output directory;
  the tick's work takes 0.4 s. And the same tick with work that takes 3 s.
\<close>

definition quick_tick :: tick_inputs where
  "quick_tick =
     \<lparr>gpu_query = Inr zero_response,
      encoder_query = Inr (0, ''0, 0, 0''),
      compute_processes = [],
      os_processes = [],
      system_reading = Inl OSError,
      output_state = \<lparr>path_exists = Inr False, rglob_m3u8 = Inr 0, rglob_ts = Inr 0,
                       rglob_all = Inr []\<rparr>,
      work = 2 / 5,
      stop_signal = False\<rparr>"

definition slow_tick :: tick_inputs where
  "slow_tick = quick_tick\<lparr>work := 3\<rparr>"

text \<open>A tick whose GPU and encoder answers carry not-applicable fields.\<close>

definition na_tick :: tick_inputs where
  "na_tick = quick_tick\<lparr>gpu_query := Inr na_response,
                          encoder_query := Inr (0, ''[N/A], [N/A], [N/A]'')\<rparr>"

definition empty_disk :: disk where
  "empty_disk = \<lparr>files = Map.empty, can_open = (\<lambda>name. True)\<rparr>"

section \<open>Properties of the attribution heuristic\<close>

lemma sum_input_streams_sort_key:
  "sum_list (map input_streams (sort_key pid ps)) = sum_list (map input_streams ps)"
proof -
  have "mset (map input_streams (sort_key pid ps)) = mset (map input_streams ps)"
    by simp
  then show ?thesis
    by (metis sum_mset_sum_list)
qed

text \<open>
  C3: no process gives 0/0/0; one process with count k gives k/0/k; two processes with
  pids p1 < p2 and counts k1, k2 give k1/k2/k1+k2 in either input order.
\<close>

theorem attribution_small_cases:
  "detect_nvenc_utilization [] =
     \<lparr>nvenc1_estimated_load = 0, nvenc2_estimated_load = 0, total_concurrent_streams = 0\<rparr>
   \<and> detect_nvenc_utilization [a] =
     \<lparr>nvenc1_estimated_load = input_streams a, nvenc2_estimated_load = 0,
      total_concurrent_streams = input_streams a\<rparr>
   \<and> (pid a < pid b \<longrightarrow>
        detect_nvenc_utilization [a, b] =
          \<lparr>nvenc1_estimated_load = input_streams a, nvenc2_estimated_load = input_streams b,
           total_concurrent_streams = input_streams a + input_streams b\<rparr>
        \<and> detect_nvenc_utilization [b, a] =
          \<lparr>nvenc1_estimated_load = input_streams a, nvenc2_estimated_load = input_streams b,
           total_concurrent_streams = input_streams a + input_streams b\<rparr>)"
  by (simp add: detect_nvenc_utilization_def zero_util_def)

theorem attribution_small_cases_witness:
  "pid \<lparr>pid = 100, input_streams = 5, cpu_percent = 0, memory_mb = PyInt 0,
         runtime_seconds = PyInt 0, cmdline_sample = []\<rparr>
     < pid \<lparr>pid = 200, input_streams = 7, cpu_percent = 0, memory_mb = PyInt 0,
            runtime_seconds = PyInt 0, cmdline_sample = []\<rparr>
   \<and> detect_nvenc_utilization
        [\<lparr>pid = 200, input_streams = 7, cpu_percent = 0, memory_mb = PyInt 0,
          runtime_seconds = PyInt 0, cmdline_sample = []\<rparr>,
         \<lparr>pid = 100, input_streams = 5, cpu_percent = 0, memory_mb = PyInt 0,
          runtime_seconds = PyInt 0, cmdline_sample = []\<rparr>] =
        \<lparr>nvenc1_estimated_load = 5, nvenc2_estimated_load = 7,
         total_concurrent_streams = 12\<rparr>"
  using attribution_small_cases
    [of "\<lparr>pid = 100, input_streams = 5, cpu_percent = 0, memory_mb = PyInt 0,
          runtime_seconds = PyInt 0, cmdline_sample = []\<rparr>"
        "\<lparr>pid = 200, input_streams = 7, cpu_percent = 0, memory_mb = PyInt 0,
          runtime_seconds = PyInt 0, cmdline_sample = []\<rparr>"]
  by simp

lemma total_is_sum:
  "total_concurrent_streams (detect_nvenc_utilization ps) = sum_list (map input_streams ps)"
proof (cases "sort_key pid ps")
  case Nil
  then have "ps = []" by (metis length_sort length_0_conv)
  then show ?thesis by (simp add: detect_nvenc_utilization_def zero_util_def)
next
  case (Cons p qs)
  then have ne: "ps \<noteq> []" by auto
  have "total_concurrent_streams (detect_nvenc_utilization ps)
        = sum_list (map input_streams (sort_key pid ps))"
    using Cons ne by (cases qs) (simp_all add: detect_nvenc_utilization_def Let_def)
  then show ?thesis by (simp only: sum_input_streams_sort_key)
qed

lemma named_le_total:
  assumes "\<forall>p\<in>set ps. 0 \<le> input_streams p"
  shows "nvenc1_estimated_load (detect_nvenc_utilization ps)
         + nvenc2_estimated_load (detect_nvenc_utilization ps)
         \<le> total_concurrent_streams (detect_nvenc_utilization ps)"
proof (cases "sort_key pid ps")
  case Nil
  then have "ps = []" by (metis length_sort length_0_conv)
  then show ?thesis by (simp add: detect_nvenc_utilization_def zero_util_def)
next
  case (Cons p qs)
  then have ne: "ps \<noteq> []" by auto
  have nonneg: "\<forall>x\<in>set (sort_key pid ps). 0 \<le> input_streams x"
    using assms by simp
  show ?thesis
  proof (cases qs)
    case Nil
    with \<open>sort_key pid ps = p # qs\<close> ne show ?thesis
      by (simp add: detect_nvenc_utilization_def Let_def)
  next
    case (Cons q rest)
    have "0 \<le> sum_list (map input_streams rest)"
      using nonneg \<open>sort_key pid ps = p # qs\<close> Cons
      by (intro sum_list_nonneg) auto
    with Cons \<open>sort_key pid ps = p # qs\<close> ne show ?thesis
      by (simp add: detect_nvenc_utilization_def Let_def)
  qed
qed

lemma ffmpeg_counts_nonneg:
  "\<forall>p\<in>set (get_ffmpeg_processes now procs). 0 \<le> input_streams p"
  by (auto simp: get_ffmpeg_processes_def List.map_filter_def ffmpeg_entry_def Let_def
           split: if_splits)

text \<open>
  C4: for every list of relevant processes, of any length, the total is the sum of all
  input-stream counts; and since a count is never negative (it is the \<open>str.count\<close> of
  \<open>get_ffmpeg_processes\<close>), the two named loads together do not exceed the total.
\<close>

theorem attribution_total_is_sum:
  "total_concurrent_streams (detect_nvenc_utilization ps) = sum_list (map input_streams ps)
   \<and> ((\<forall>p\<in>set ps. 0 \<le> input_streams p) \<longrightarrow>
        nvenc1_estimated_load (detect_nvenc_utilization ps)
        + nvenc2_estimated_load (detect_nvenc_utilization ps)
        \<le> total_concurrent_streams (detect_nvenc_utilization ps))
   \<and> nvenc1_estimated_load (detect_nvenc_utilization (get_ffmpeg_processes now procs))
        + nvenc2_estimated_load (detect_nvenc_utilization (get_ffmpeg_processes now procs))
        \<le> total_concurrent_streams (detect_nvenc_utilization (get_ffmpeg_processes now procs))"
  using total_is_sum named_le_total ffmpeg_counts_nonneg by blast

theorem attribution_total_is_sum_witness:
  "list_all (\<lambda>p. 0 \<le> input_streams p) three_processes
   \<and> detect_nvenc_utilization three_processes =
       \<lparr>nvenc1_estimated_load = 2, nvenc2_estimated_load = 3, total_concurrent_streams = 9\<rparr>
   \<and> nvenc1_estimated_load (detect_nvenc_utilization three_processes)
        + nvenc2_estimated_load (detect_nvenc_utilization three_processes)
        \<le> total_concurrent_streams (detect_nvenc_utilization three_processes)
   \<and> total_concurrent_streams (detect_nvenc_utilization three_processes)
        = sum_list (map input_streams three_processes)"
proof -
  have h: "\<forall>p\<in>set three_processes. 0 \<le> input_streams p"
    by (simp add: three_processes_def)
  have v: "detect_nvenc_utilization three_processes =
       \<lparr>nvenc1_estimated_load = 2, nvenc2_estimated_load = 3, total_concurrent_streams = 9\<rparr>"
    by (simp add: three_processes_def detect_nvenc_utilization_def)
  from attribution_total_is_sum [of three_processes 0 "[]"] h v show ?thesis
    by (simp add: three_processes_def)
qed

section \<open>Properties of the log markers\<close>

lemma foldl_max_Max: "foldl max (v::int) vs = Max (set (v # vs))"
proof -
  have "(\<lambda>x a. max a x) = (max :: int \<Rightarrow> int \<Rightarrow> int)"
    by (intro ext) (simp add: max.commute)
  then show ?thesis
    by (simp only: foldl_conv_fold Max.set_eq_fold)
qed

text \<open>
  C8: the dropped-frame count is the largest integer among the matches of the
  \<open>drop=\<close> marker, and 0 when there is none; on \<open>drop=3 ... drop=11 ... drop=7\<close> the
  matches are 3, 11 and 7 and the result is 11 (their sum is 21, the last is 7).
\<close>

theorem dropped_frames_is_maximum:
  "count_dropped_frames content =
     (if re_findall ''drop='' is_digit [] content = [] then 0
      else Max (set (map int_of_digits (re_findall ''drop='' is_digit [] content))))
   \<and> map int_of_digits (re_findall ''drop='' is_digit [] ''drop=3 ... drop=11 ... drop=7'')
       = [3, 11, 7]
   \<and> count_dropped_frames ''drop=3 ... drop=11 ... drop=7'' = 11
   \<and> count_dropped_frames ''frame= 100 fps= 25 speed=1.0x'' = 0"
proof -
  have "count_dropped_frames content =
     (if re_findall ''drop='' is_digit [] content = [] then 0
      else Max (set (map int_of_digits (re_findall ''drop='' is_digit [] content))))"
    by (auto simp: count_dropped_frames_def Let_def foldl_max_Max split: list.splits)
  moreover have "map int_of_digits
      (re_findall ''drop='' is_digit [] ''drop=3 ... drop=11 ... drop=7'') = [3, 11, 7]"
    by (simp add: re_match_def is_digit_def is_space_def int_of_digits_def digit_val_def)
  moreover have "count_dropped_frames ''drop=3 ... drop=11 ... drop=7'' = 11"
    by (simp add: count_dropped_frames_def re_match_def is_digit_def is_space_def
                  int_of_digits_def digit_val_def)
  moreover have "count_dropped_frames ''frame= 100 fps= 25 speed=1.0x'' = 0"
    by (simp add: count_dropped_frames_def re_match_def is_digit_def is_space_def
                  int_of_digits_def digit_val_def)
  ultimately show ?thesis by blast
qed

section \<open>Properties of the output-quality analysis\<close>

lemma scan_successful:
  "successful_streams (foldl scan_stream a es) =
     successful_streams a + int (length (filter (\<lambda>d. is_stream_dir d \<and> playlist_ok d) es))"
  by (induction es arbitrary: a) (simp_all add: scan_stream_def)

lemma scan_failed:
  "failed_streams (foldl scan_stream a es) =
     failed_streams a + int (length (filter (\<lambda>d. is_stream_dir d \<and> \<not> playlist_ok d) es))"
  by (induction es arbitrary: a) (simp_all add: scan_stream_def)

lemma scan_engine_nonneg:
  assumes "scan_engine output_dir name = Inr a"
  shows "0 \<le> successful_streams a \<and> 0 \<le> failed_streams a"
proof (cases "case output_dir of None \<Rightarrow> None | Some d \<Rightarrow> child d name")
  case None
  with assms show ?thesis by (auto simp: scan_engine_def engine_init_def)
next
  case (Some n)
  with assms show ?thesis
    by (cases n) (auto simp: scan_engine_def engine_init_def scan_successful scan_failed)
qed

lemma set_success_rate_value:
  assumes "0 \<le> successful_streams a" and "0 \<le> failed_streams a"
  shows "success_rate (set_success_rate a) =
           Some (if successful_streams a + failed_streams a = 0 then PyInt 0
                 else PyFloat (of_int (successful_streams a)
                               / of_int (successful_streams a + failed_streams a) * 100))"
    and "successful_streams (set_success_rate a) = successful_streams a"
    and "failed_streams (set_success_rate a) = failed_streams a"
  using assms by (auto simp: set_success_rate_def Let_def)

text \<open>
  C7: for each engine the success rate is \<open>successful / (successful + failed) * 100\<close>,
  and the int 0 when no stream directory was counted; the two counters are the numbers of
  stream directories with and without a non-empty playlist; 3 successful and 1 failed
  give 75.0.
\<close>

theorem success_rate_guarded:
  "(analyze_output_quality output_dir = Inr q \<longrightarrow>
      (\<forall>e \<in> {nvenc1 q, nvenc2 q}.
         success_rate e =
           Some (if successful_streams e + failed_streams e = 0 then PyInt 0
                 else PyFloat (of_int (successful_streams e)
                               / of_int (successful_streams e + failed_streams e) * 100))))
   \<and> (scan_engine (Some (Dir n sz [Dir name sz' es])) name = Inr a \<longrightarrow>
        successful_streams a
          = int (length (filter (\<lambda>d. is_stream_dir d \<and> playlist_ok d) es))
        \<and> failed_streams a
          = int (length (filter (\<lambda>d. is_stream_dir d \<and> \<not> playlist_ok d) es)))
   \<and> success_rate (set_success_rate (engine_init\<lparr>successful_streams := 3, failed_streams := 1\<rparr>))
        = Some (PyFloat 75)
   \<and> success_rate (set_success_rate engine_init) = Some (PyInt 0)"
proof -
  have rate: "analyze_output_quality output_dir = Inr q \<longrightarrow>
      (\<forall>e \<in> {nvenc1 q, nvenc2 q}.
         success_rate e =
           Some (if successful_streams e + failed_streams e = 0 then PyInt 0
                 else PyFloat (of_int (successful_streams e)
                               / of_int (successful_streams e + failed_streams e) * 100)))"
  proof
    assume ok: "analyze_output_quality output_dir = Inr q"
    then obtain a1 a2 where a1: "scan_engine output_dir ''nvenc1'' = Inr a1"
      and a2: "scan_engine output_dir ''nvenc2'' = Inr a2"
      and q: "q = \<lparr>nvenc1 = set_success_rate a1, nvenc2 = set_success_rate a2\<rparr>"
      by (auto simp: analyze_output_quality_def split: sum.splits)
    have "0 \<le> successful_streams a1 \<and> 0 \<le> failed_streams a1"
      using a1 by (rule scan_engine_nonneg)
    moreover have "0 \<le> successful_streams a2 \<and> 0 \<le> failed_streams a2"
      using a2 by (rule scan_engine_nonneg)
    ultimately show "\<forall>e \<in> {nvenc1 q, nvenc2 q}.
         success_rate e =
           Some (if successful_streams e + failed_streams e = 0 then PyInt 0
                 else PyFloat (of_int (successful_streams e)
                               / of_int (successful_streams e + failed_streams e) * 100))"
      using q by (simp add: set_success_rate_value)
  qed
  have counts: "scan_engine (Some (Dir n sz [Dir name sz' es])) name = Inr a \<longrightarrow>
        successful_streams a
          = int (length (filter (\<lambda>d. is_stream_dir d \<and> playlist_ok d) es))
        \<and> failed_streams a
          = int (length (filter (\<lambda>d. is_stream_dir d \<and> \<not> playlist_ok d) es))"
    by (auto simp: scan_engine_def child_def engine_init_def scan_successful scan_failed)
  have ex: "success_rate (set_success_rate (engine_init\<lparr>successful_streams := 3, failed_streams := 1\<rparr>))
        = Some (PyFloat 75)"
    "success_rate (set_success_rate engine_init) = Some (PyInt 0)"
    by (simp_all add: set_success_rate_def engine_init_def)
  from rate counts ex show ?thesis by blast
qed

theorem success_rate_guarded_witness:
  "analyze_output_quality (Some example_output) =
     Inr \<lparr>nvenc1 = \<lparr>successful_streams = 3, failed_streams = 1,
                     total_size_mb = PyFloat (2097439 / 1048576),
                     success_rate = Some (PyFloat 75)\<rparr>,
          nvenc2 = \<lparr>successful_streams = 0, failed_streams = 0,
                     total_size_mb = PyInt 0, success_rate = Some (PyInt 0)\<rparr>\<rparr>
   \<and> success_rate (nvenc1 \<lparr>nvenc1 = \<lparr>successful_streams = 3, failed_streams = 1,
                     total_size_mb = PyFloat (2097439 / 1048576),
                     success_rate = Some (PyFloat 75)\<rparr>,
          nvenc2 = \<lparr>successful_streams = 0, failed_streams = 0,
                     total_size_mb = PyInt 0, success_rate = Some (PyInt 0)\<rparr>\<rparr>)
       = Some (PyFloat (of_int 3 / of_int (3 + 1) * 100))"
proof -
  have v: "analyze_output_quality (Some example_output) =
     Inr \<lparr>nvenc1 = \<lparr>successful_streams = 3, failed_streams = 1,
                     total_size_mb = PyFloat (2097439 / 1048576),
                     success_rate = Some (PyFloat 75)\<rparr>,
          nvenc2 = \<lparr>successful_streams = 0, failed_streams = 0,
                     total_size_mb = PyInt 0, success_rate = Some (PyInt 0)\<rparr>\<rparr>"
    by (simp add: example_output_def analyze_output_quality_def scan_engine_def child_def
                  scan_stream_def set_success_rate_def engine_init_def is_stream_dir_def
                  playlist_ok_def starts_with_def py_add_def)
  from success_rate_guarded [of "Some example_output" _ "''output''" 4096 "''nvenc1''" 4096 "[]" engine_init] v
  show ?thesis by simp
qed

section \<open>Properties of the performance grade\<close>








section \<open>Properties of the hardware-counter queries\<close>

lemma na_is_zero:
  "int_or_zero lib ''[N/A]'' = Some (PNum (PyInt 0))"
  "float_or_zero lib ''[N/A]'' = Some (PNum (PyInt 0))"
  by (simp_all add: int_or_zero_def float_or_zero_def)

lemma or_zero_is_number:
  "int_or_zero lib x = Some v \<Longrightarrow> \<exists>n. v = PNum n"
  "float_or_zero lib x = Some v \<Longrightarrow> \<exists>n. v = PNum n"
  by (auto simp: int_or_zero_def float_or_zero_def split: if_splits)

lemma gpu_info_fields:
  assumes "get_gpu_info lib (Inr stdout) = Some info"
  obtains v0 v1 total used free util mem_util temp power gpu_clock mem_clock mp where
    "Option.bind (field (split_on CHR '','' (py_strip stdout)) 5) (float_or_zero lib) = Some util"
    "Option.bind (field (split_on CHR '','' (py_strip stdout)) 6) (float_or_zero lib) = Some mem_util"
    "Option.bind (field (split_on CHR '','' (py_strip stdout)) 7) (int_or_zero lib) = Some temp"
    "Option.bind (field (split_on CHR '','' (py_strip stdout)) 8) (float_or_zero lib) = Some power"
    "Option.bind (field (split_on CHR '','' (py_strip stdout)) 9) (int_or_zero lib) = Some gpu_clock"
    "Option.bind (field (split_on CHR '','' (py_strip stdout)) 10) (int_or_zero lib) = Some mem_clock"
    "info = [(''timestamp'', PStr v0),
             (''gpu_name'', PStr v1),
             (''memory_total_mb'', PNum (PyInt total)),
             (''memory_used_mb'', PNum (PyInt used)),
             (''memory_free_mb'', PNum (PyInt free)),
             (''gpu_utilization_%'', util),
             (''memory_utilization_%'', mem_util),
             (''temperature_c'', temp),
             (''power_draw_w'', power),
             (''gpu_clock_mhz'', gpu_clock),
             (''memory_clock_mhz'', mem_clock),
             (''memory_percent'', PNum (PyFloat mp))]"
  using assms unfolding get_gpu_info_def Let_def
  by (simp split: Option.bind_splits if_splits) blast

lemma bind_na:
  "field vs i = Some ''[N/A]'' \<Longrightarrow> Option.bind (field vs i) (int_or_zero lib) = Some v
     \<Longrightarrow> v = PNum (PyInt 0)"
  "field vs i = Some ''[N/A]'' \<Longrightarrow> Option.bind (field vs i) (float_or_zero lib) = Some v
     \<Longrightarrow> v = PNum (PyInt 0)"
  by (simp_all add: na_is_zero)

lemma bind_number:
  "Option.bind (field vs i) (int_or_zero lib) = Some v \<Longrightarrow> \<exists>n. v = PNum n"
  "Option.bind (field vs i) (float_or_zero lib) = Some v \<Longrightarrow> \<exists>n. v = PNum n"
  by (auto split: Option.bind_splits dest: or_zero_is_number)

lemma gpu_na_zero:
  assumes "get_gpu_info lib (Inr stdout) = Some info"
  shows "\<forall>(i, key) \<in> set guarded_gpu_fields.
         (field (split_on CHR '','' (py_strip stdout)) i = Some ''[N/A]''
            \<longrightarrow> map_of info key = Some (PNum (PyInt 0)))
         \<and> (\<exists>n. map_of info key = Some (PNum n))"
proof -
  let ?vs = "split_on CHR '','' (py_strip stdout)"
  from assms obtain v0 v1 total used free util mem_util temp power gpu_clock mem_clock mp where
    f5: "Option.bind (field ?vs 5) (float_or_zero lib) = Some util"
    and f6: "Option.bind (field ?vs 6) (float_or_zero lib) = Some mem_util"
    and f7: "Option.bind (field ?vs 7) (int_or_zero lib) = Some temp"
    and f8: "Option.bind (field ?vs 8) (float_or_zero lib) = Some power"
    and f9: "Option.bind (field ?vs 9) (int_or_zero lib) = Some gpu_clock"
    and f10: "Option.bind (field ?vs 10) (int_or_zero lib) = Some mem_clock"
    and info: "info = [(''timestamp'', PStr v0),
             (''gpu_name'', PStr v1),
             (''memory_total_mb'', PNum (PyInt total)),
             (''memory_used_mb'', PNum (PyInt used)),
             (''memory_free_mb'', PNum (PyInt free)),
             (''gpu_utilization_%'', util),
             (''memory_utilization_%'', mem_util),
             (''temperature_c'', temp),
             (''power_draw_w'', power),
             (''gpu_clock_mhz'', gpu_clock),
             (''memory_clock_mhz'', mem_clock),
             (''memory_percent'', PNum (PyFloat mp))]"
    by (rule gpu_info_fields)
  have m: "map_of info ''gpu_utilization_%'' = Some util"
    "map_of info ''memory_utilization_%'' = Some mem_util"
    "map_of info ''temperature_c'' = Some temp"
    "map_of info ''power_draw_w'' = Some power"
    "map_of info ''gpu_clock_mhz'' = Some gpu_clock"
    "map_of info ''memory_clock_mhz'' = Some mem_clock"
    by (simp_all add: info)
  have z: "field ?vs 5 = Some ''[N/A]'' \<longrightarrow> util = PNum (PyInt 0)"
    "field ?vs 6 = Some ''[N/A]'' \<longrightarrow> mem_util = PNum (PyInt 0)"
    "field ?vs 7 = Some ''[N/A]'' \<longrightarrow> temp = PNum (PyInt 0)"
    "field ?vs 8 = Some ''[N/A]'' \<longrightarrow> power = PNum (PyInt 0)"
    "field ?vs 9 = Some ''[N/A]'' \<longrightarrow> gpu_clock = PNum (PyInt 0)"
    "field ?vs 10 = Some ''[N/A]'' \<longrightarrow> mem_clock = PNum (PyInt 0)"
    using f5 f6 f7 f8 f9 f10 bind_na by blast+
  have n: "\<exists>n. util = PNum n" "\<exists>n. mem_util = PNum n" "\<exists>n. temp = PNum n"
    "\<exists>n. power = PNum n" "\<exists>n. gpu_clock = PNum n" "\<exists>n. mem_clock = PNum n"
    using f5 f6 f7 f8 f9 f10 bind_number by blast+
  show ?thesis
    unfolding guarded_gpu_fields_def
    using z n by (simp add: m)
qed

lemma encoder_na_zero:
  "\<forall>(i, key) \<in> set encoder_fields.
     (field (split_on CHR '','' (py_strip out)) i = Some ''[N/A]''
        \<longrightarrow> map_of (get_nvenc_encoder_stats lib (Inr (rc, out))) key = Some (PNum (PyInt 0)))
     \<and> (\<exists>n. map_of (get_nvenc_encoder_stats lib (Inr (rc, out))) key = Some (PNum n))"
proof (cases "get_nvenc_encoder_stats lib (Inr (rc, out)) = encoder_defaults")
  case True
  then show ?thesis
    by (simp add: encoder_fields_def encoder_defaults_def)
next
  case False
  let ?vs = "split_on CHR '','' (py_strip out)"
  from False obtain sessions fps latency where
    f0: "Option.bind (field ?vs 0) (int_or_zero lib) = Some sessions"
    and f1: "Option.bind (field ?vs 1) (float_or_zero lib) = Some fps"
    and f2: "Option.bind (field ?vs 2) (float_or_zero lib) = Some latency"
    and d: "get_nvenc_encoder_stats lib (Inr (rc, out)) =
              [(''encoder_sessions'', sessions), (''encoder_avg_fps'', fps),
               (''encoder_avg_latency_ms'', latency)]"
    unfolding get_nvenc_encoder_stats_def Let_def
    by (auto split: if_splits option.splits Option.bind_splits)
  have z: "field ?vs 0 = Some ''[N/A]'' \<longrightarrow> sessions = PNum (PyInt 0)"
    "field ?vs 1 = Some ''[N/A]'' \<longrightarrow> fps = PNum (PyInt 0)"
    "field ?vs 2 = Some ''[N/A]'' \<longrightarrow> latency = PNum (PyInt 0)"
    using f0 f1 f2 bind_na by blast+
  have n: "\<exists>n. sessions = PNum n" "\<exists>n. fps = PNum n" "\<exists>n. latency = PNum n"
    using f0 f1 f2 bind_number by blast+
  show ?thesis
    unfolding encoder_fields_def
    using z n by (simp add: d)
qed

lemma encoder_failure_zero:
  "get_nvenc_encoder_stats lib (Inl e) = encoder_defaults"
  "rc \<noteq> 0 \<Longrightarrow> get_nvenc_encoder_stats lib (Inr (rc, stdout)) = encoder_defaults"
  "py_strip stdout = [] \<Longrightarrow> get_nvenc_encoder_stats lib (Inr (rc, stdout)) = encoder_defaults"
  by (simp_all add: get_nvenc_encoder_stats_def)

lemma na_response_info:
  "get_gpu_info plain_lib (Inr na_response) =
     Some [(''timestamp'', PStr ''2024/01/01 12:00:00.000''),
           (''gpu_name'', PStr ''NVIDIA GeForce RTX 4090''),
           (''memory_total_mb'', PNum (PyInt 24564)),
           (''memory_used_mb'', PNum (PyInt 1024)),
           (''memory_free_mb'', PNum (PyInt 23540)),
           (''gpu_utilization_%'', PNum (PyInt 0)),
           (''memory_utilization_%'', PNum (PyFloat 3)),
           (''temperature_c'', PNum (PyInt 0)),
           (''power_draw_w'', PNum (PyFloat (276 / 5))),
           (''gpu_clock_mhz'', PNum (PyInt 210)),
           (''memory_clock_mhz'', PNum (PyInt 0)),
           (''memory_percent'', PNum (PyFloat (25600 / 6141)))]"
  by code_simp

lemma zero_response_info:
  "get_gpu_info plain_lib (Inr zero_response) =
     Some [(''timestamp'', PStr ''2024/01/01 12:00:00.000''),
           (''gpu_name'', PStr ''NVIDIA GeForce RTX 4090''),
           (''memory_total_mb'', PNum (PyInt 24564)),
           (''memory_used_mb'', PNum (PyInt 1024)),
           (''memory_free_mb'', PNum (PyInt 23540)),
           (''gpu_utilization_%'', PNum (PyFloat 0)),
           (''memory_utilization_%'', PNum (PyFloat 3)),
           (''temperature_c'', PNum (PyInt 0)),
           (''power_draw_w'', PNum (PyFloat (276 / 5))),
           (''gpu_clock_mhz'', PNum (PyInt 210)),
           (''memory_clock_mhz'', PNum (PyInt 0)),
           (''memory_percent'', PNum (PyFloat (25600 / 6141)))]"
  by code_simp

lemma na_response_field7:
  "field (split_on CHR '','' (py_strip na_response)) 7 = Some ''[N/A]''"
  by code_simp

section \<open>Properties of the output-artifact scan\<close>


lemma guarded_division_never_raises:
  "\<exists>avg. (if playlist_count > 0
           then py_truediv (int segment_count) (int playlist_count)
           else Inr (PyInt 0)) = Inr avg"
  by (simp add: py_truediv_def)


lemma hls_result_shapes:
  assumes "get_hls_output_stats p = Inr d"
  shows "(\<exists>pl sg sz. d = [(''total_playlists'', PNum (PyInt (int pl))),
                (''total_segments'', PNum (PyInt (int sg))),
                (''total_size_mb'', PNum (PyFloat sz)),
                (''avg_segments_per_playlist'',
                   PNum (if pl > 0 then PyFloat (of_nat sg / of_nat pl) else PyInt 0))])
         \<or> d = hls_fallback
         \<or> (path_exists p = Inr False
             \<and> d = [(''total_playlists'', PNum (PyInt 0)),
                    (''total_segments'', PNum (PyInt 0)),
                    (''total_size_mb'', PNum (PyInt 0))])"
  using assms
  by (auto simp: get_hls_output_stats_def try_except_def hls_scan_def py_truediv_def
           split: sum.splits bool.splits if_splits)




section \<open>Properties of the report\<close>







section \<open>Properties of the sampling loop\<close>

lemma map_of_dict_set:
  "map_of (dict_set k v d) k' = (if k' = k then Some v else map_of d k')"
  by (induction d) auto

lemma map_of_dict_update_other:
  "k \<notin> fst ` set other \<Longrightarrow> map_of (dict_update d other) k = map_of d k"
  unfolding dict_update_def
  by (induction other arbitrary: d) (auto simp: map_of_dict_set)

lemma gpu_info_keys:
  assumes "get_gpu_info lib r = Some g"
  shows "''unix_timestamp'' \<notin> fst ` set g"
proof (cases r)
  case (Inl e)
  with assms show ?thesis by (simp add: get_gpu_info_def)
next
  case (Inr stdout)
  with assms have "get_gpu_info lib (Inr stdout) = Some g" by simp
  then obtain v0 v1 total used free util mem_util temp power gpu_clock mem_clock mp where
    "g = [(''timestamp'', PStr v0),
             (''gpu_name'', PStr v1),
             (''memory_total_mb'', PNum (PyInt total)),
             (''memory_used_mb'', PNum (PyInt used)),
             (''memory_free_mb'', PNum (PyInt free)),
             (''gpu_utilization_%'', util),
             (''memory_utilization_%'', mem_util),
             (''temperature_c'', temp),
             (''power_draw_w'', power),
             (''gpu_clock_mhz'', gpu_clock),
             (''memory_clock_mhz'', mem_clock),
             (''memory_percent'', PNum (PyFloat mp))]"
    by (rule gpu_info_fields)
  then show ?thesis by simp
qed

lemma encoder_keys:
  "map fst (get_nvenc_encoder_stats lib r) =
     [''encoder_sessions'', ''encoder_avg_fps'', ''encoder_avg_latency_ms'']"
  by (auto simp: get_nvenc_encoder_stats_def encoder_defaults_def Let_def
           split: sum.splits option.splits Option.bind_splits)

lemma system_info_keys:
  "''unix_timestamp'' \<notin> fst ` set (get_system_info reading)"
  by (cases reading) (simp_all add: get_system_info_def)

lemma hls_keys:
  assumes "get_hls_output_stats p = Inr h"
  shows "''unix_timestamp'' \<notin> fst ` set h"
  using hls_result_shapes [OF assms] by (auto simp: hls_fallback_def)

lemma collect_data_timestamp:
  assumes "collect_data lib now t = Inr dp"
  shows "dict_get dp ''unix_timestamp'' PNone = PNum (PyFloat now)"
proof -
  let ?k = "''unix_timestamp''"
  define d0 :: dict where
    "d0 = [(''timestamp'', PStr (isoformat lib now)), (?k, PNum (PyFloat now))]"
  define d1 where
    "d1 = (case get_gpu_info lib (gpu_query t) of None \<Rightarrow> d0 | Some g \<Rightarrow> dict_update d0 g)"
  define d2 where "d2 = dict_update d1 (get_nvenc_encoder_stats lib (encoder_query t))"
  define ps where "ps = get_ffmpeg_processes now (os_processes t)"
  define d3 where "d3 = dict_set ''compute_processes'' (PList (compute_processes t)) d2"
  define d4 where "d4 = dict_set ''ffmpeg_processes'' (PList (map process_dict ps)) d3"
  define d5 where "d5 = dict_set ''total_ffmpeg_processes'' (PNum (PyInt (int (length ps)))) d4"
  define d6 where
    "d6 = dict_set ''total_compute_processes''
            (PNum (PyInt (int (length (compute_processes t))))) d5"
  define d7 where "d7 = dict_update d6 (util_dict (detect_nvenc_utilization ps))"
  define d8 where "d8 = dict_update d7 (get_system_info (system_reading t))"
  from assms obtain h where h: "get_hls_output_stats (output_state t) = Inr h"
    and dp: "dp = dict_update d8 h"
    unfolding collect_data_def Let_def d0_def d1_def d2_def ps_def d3_def d4_def d5_def
              d6_def d7_def d8_def
    by (auto split: sum.splits)
  have "map_of d0 ?k = Some (PNum (PyFloat now))"
    by (simp add: d0_def)
  then have "map_of d1 ?k = Some (PNum (PyFloat now))"
    by (auto simp: d1_def map_of_dict_update_other gpu_info_keys split: option.splits)
  moreover have "?k \<notin> fst ` set (get_nvenc_encoder_stats lib (encoder_query t))"
  proof -
    have "fst ` set (get_nvenc_encoder_stats lib (encoder_query t))
            = set (map fst (get_nvenc_encoder_stats lib (encoder_query t)))"
      by simp
    then show ?thesis by (simp only: encoder_keys) simp
  qed
  ultimately have "map_of d2 ?k = Some (PNum (PyFloat now))"
    by (simp add: d2_def map_of_dict_update_other)
  then have "map_of d6 ?k = Some (PNum (PyFloat now))"
    by (simp add: d3_def d4_def d5_def d6_def map_of_dict_set)
  then have "map_of d7 ?k = Some (PNum (PyFloat now))"
    by (simp add: d7_def map_of_dict_update_other util_dict_def)
  then have "map_of d8 ?k = Some (PNum (PyFloat now))"
    by (simp add: d8_def map_of_dict_update_other system_info_keys)
  then have "map_of dp ?k = Some (PNum (PyFloat now))"
    using hls_keys [OF h] by (simp add: dp map_of_dict_update_other)
  then show ?thesis
    by (simp add: dict_get_def)
qed


lemma loop_timestamps:
  "monitor_loop lib interval duration start ticks st = (ending, st') \<Longrightarrow>
   \<exists>new. data_points st' = data_points st @ new \<and> length new \<le> length ticks \<and>
     (\<forall>k<length new.
        dict_get (new ! k) ''unix_timestamp'' PNone =
          PNum (PyFloat (clock st + sum_list (map (\<lambda>t. work t + interval) (take k ticks)))))"
proof (induction ticks arbitrary: st ending st')
  case Nil
  then have "data_points st' = data_points st @ []"
    by (auto split: if_splits)
  then show ?case by auto
next
  case (Cons t ts)
  show ?case
  proof (cases "running st")
    case False
    with Cons.prems have "data_points st' = data_points st @ []" by simp
    then show ?thesis by auto
  next
    case True
    show ?thesis
    proof (cases "collect_data lib (clock st) t")
      case (Inl e)
      with True Cons.prems have "data_points st' = data_points st @ []" by auto
      then show ?thesis by auto
    next
      case (Inr dp)
      have ts0: "dict_get dp ''unix_timestamp'' PNone = PNum (PyFloat (clock st))"
        using Inr by (rule collect_data_timestamp)
      let ?st1 = "st\<lparr>clock := clock st + work t, running := \<not> stop_signal t,
                      data_points := data_points st @ [dp]\<rparr>"
      show ?thesis
      proof (cases "duration_reached duration (clock ?st1 - start) \<or> interval < 0")
        case True
        with \<open>running st\<close> Inr Cons.prems have "data_points st' = data_points st @ [dp]"
          by (auto simp: Let_def split: if_splits)
        moreover have "\<forall>k<length [dp].
            dict_get ([dp] ! k) ''unix_timestamp'' PNone =
              PNum (PyFloat (clock st
                 + sum_list (map (\<lambda>t. work t + interval) (take k (t # ts)))))"
          using ts0 by simp
        ultimately show ?thesis
          by (intro exI [of _ "[dp]"]) simp
      next
        case False
        let ?st2 = "?st1\<lparr>clock := clock ?st1 + interval\<rparr>"
        from False \<open>running st\<close> Inr Cons.prems
        have rec: "monitor_loop lib interval duration start ts ?st2 = (ending, st')"
          by (simp add: Let_def)
        from Cons.IH [OF rec] obtain new where
          dps: "data_points st' = data_points ?st2 @ new"
          and len: "length new \<le> length ts"
          and tsn: "\<forall>k<length new.
            dict_get (new ! k) ''unix_timestamp'' PNone =
              PNum (PyFloat (clock ?st2
                 + sum_list (map (\<lambda>t. work t + interval) (take k ts))))"
          by blast
        have "data_points st' = data_points st @ (dp # new)"
          using dps by simp
        moreover have "length (dp # new) \<le> length (t # ts)"
          using len by simp
        moreover have "\<forall>k<length (dp # new).
            dict_get ((dp # new) ! k) ''unix_timestamp'' PNone =
              PNum (PyFloat (clock st
                 + sum_list (map (\<lambda>t. work t + interval) (take k (t # ts)))))"
        proof (intro allI impI)
          fix k assume k: "k < length (dp # new)"
          show "dict_get ((dp # new) ! k) ''unix_timestamp'' PNone =
              PNum (PyFloat (clock st
                 + sum_list (map (\<lambda>t. work t + interval) (take k (t # ts)))))"
          proof (cases k)
            case 0
            with ts0 show ?thesis by simp
          next
            case (Suc j)
            with k have "j < length new" by simp
            with tsn have "dict_get (new ! j) ''unix_timestamp'' PNone =
              PNum (PyFloat (clock ?st2
                 + sum_list (map (\<lambda>t. work t + interval) (take j ts))))"
              by blast
            with Suc show ?thesis by (simp add: add.assoc)
          qed
        qed
        ultimately show ?thesis by blast
      qed
    qed
  qed
qed

text \<open>
  C6, as the code has it: the loop sleeps the whole interval after every tick, however
  long the tick's work took. The k-th Sample of a run is stamped with the start of the
  run plus, for each earlier tick, that tick's work and one full interval; so two tick
  starts are \<open>work + interval\<close> apart, never \<open>interval\<close> alone.
\<close>

theorem tick_starts_are_work_plus_interval:
  "monitor_loop lib interval duration start ticks
       \<lparr>clock = c0, running = r, data_points = []\<rparr> = (ending, st') \<longrightarrow>
     length (data_points st') \<le> length ticks
     \<and> (\<forall>k<length (data_points st').
          dict_get (data_points st' ! k) ''unix_timestamp'' PNone =
            PNum (PyFloat (c0 + sum_list (map (\<lambda>t. work t + interval) (take k ticks)))))"
proof
  assume "monitor_loop lib interval duration start ticks
       \<lparr>clock = c0, running = r, data_points = []\<rparr> = (ending, st')"
  from loop_timestamps [OF this]
  show "length (data_points st') \<le> length ticks
     \<and> (\<forall>k<length (data_points st').
          dict_get (data_points st' ! k) ''unix_timestamp'' PNone =
            PNum (PyFloat (c0 + sum_list (map (\<lambda>t. work t + interval) (take k ticks)))))"
    by auto
qed

lemma example_run_timestamps:
  "map (\<lambda>p. dict_get p ''unix_timestamp'' PNone)
       (data_points (snd (monitor_loop plain_lib 1 None 0 [quick_tick, slow_tick, quick_tick]
                            \<lparr>clock = 0, running = True, data_points = []\<rparr>)))
     = [PNum (PyFloat 0), PNum (PyFloat (7 / 5)), PNum (PyFloat (27 / 5))]"
  by code_simp

theorem tick_starts_are_work_plus_interval_witness:
  "length (data_points (snd (monitor_loop plain_lib 1 None 0 [quick_tick, slow_tick, quick_tick]
                            \<lparr>clock = 0, running = True, data_points = []\<rparr>))) = 3
   \<and> dict_get (data_points (snd (monitor_loop plain_lib 1 None 0
                            [quick_tick, slow_tick, quick_tick]
                            \<lparr>clock = 0, running = True, data_points = []\<rparr>)) ! 2)
        ''unix_timestamp'' PNone
       = PNum (PyFloat (0 + sum_list (map (\<lambda>t. work t + 1)
                                       (take 2 [quick_tick, slow_tick, quick_tick]))))"
proof -
  let ?run = "monitor_loop plain_lib 1 None 0 [quick_tick, slow_tick, quick_tick]
                \<lparr>clock = 0, running = True, data_points = []\<rparr>"
  have "length (map (\<lambda>p. dict_get p ''unix_timestamp'' PNone) (data_points (snd ?run))) = 3"
    by (simp only: example_run_timestamps) simp
  then have len: "length (data_points (snd ?run)) = 3"
    by simp
  have "?run = (fst ?run, snd ?run)"
    by simp
  with tick_starts_are_work_plus_interval
         [of plain_lib 1 None 0 "[quick_tick, slow_tick, quick_tick]" 0 True
             "fst ?run" "snd ?run"]
  have "\<forall>k<length (data_points (snd ?run)).
          dict_get (data_points (snd ?run) ! k) ''unix_timestamp'' PNone =
            PNum (PyFloat (0 + sum_list (map (\<lambda>t. work t + 1)
                                          (take k [quick_tick, slow_tick, quick_tick]))))"
    by blast
  with len show ?thesis
    by simp
qed

text \<open>
  C6 as the specification states it does not hold. With an interval of 1 s, a tick whose work takes 0.4 s is
  followed by the next tick 1.4 s after its start (not 1 s), and a tick whose work takes
  3 s by the next one 4 s after its start (not at once after the 3 s).
\<close>

theorem full_sleep_after_every_tick:
  "map (\<lambda>p. dict_get p ''unix_timestamp'' PNone)
       (data_points (snd (monitor_loop plain_lib 1 None 0 [quick_tick, slow_tick, quick_tick]
                            \<lparr>clock = 0, running = True, data_points = []\<rparr>)))
     = [PNum (PyFloat 0), PNum (PyFloat (7 / 5)), PNum (PyFloat (27 / 5))]
   \<and> work quick_tick = 2 / 5 \<and> work slow_tick = 3
   \<and> (7 / 5 :: rat) - 0 \<noteq> max 1 (work quick_tick)
   \<and> (27 / 5 :: rat) - 7 / 5 \<noteq> max 1 (work slow_tick)"
proof -
  have "work quick_tick = 2 / 5" and "work slow_tick = 3"
    by (simp_all add: quick_tick_def slow_tick_def)
  moreover have "(7 / 5 :: rat) - 0 \<noteq> max 1 (2 / 5)" and "(27 / 5 :: rat) - 7 / 5 \<noteq> max 1 3"
    by simp_all
  ultimately show ?thesis
    using example_run_timestamps by simp
qed

section \<open>Properties of saving a run\<close>

lemma save_all_empty:
  "save_all lib d now [] output_prefix =
     (if can_open d (output_prefix @ ''_'' @ strftime lib now @ ''.json'')
      then (None, write_file d (output_prefix @ ''_'' @ strftime lib now @ ''.json'') (JsonRun []))
      else (Some OSError, d))"
  by (simp add: save_all_def save_data_csv_def save_data_json_def save_analysis_def
                analyze_concurrent_performance_def Let_def)

lemma monitor_early_signal:
  "monitor lib d interval duration output_prefix True start_time ticks =
     Some (Stopped, [], save_all lib d start_time [] output_prefix)"
  by (cases ticks) (simp_all add: monitor_def Let_def split: prod.splits)

text \<open>
  C9: with no Sample collected, \<open>save_data_csv\<close> and \<open>save_analysis\<close> return without
  writing (the analysis of an empty run is the empty dictionary), and \<open>save_data_json\<close>
  writes the empty array; so the \<open>finally\<close> block leaves every file but the JSON file as
  it was. The run is empty when the stop signal arrives before the first tick.
\<close>

theorem empty_run_writes_only_json:
  "save_data_csv d [] filename = (None, d)
   \<and> analyze_concurrent_performance [] = Inr []
   \<and> save_analysis d [] filename = (None, d)
   \<and> save_data_json d [] filename =
       (if can_open d (filename @ ''.json'')
        then (None, write_file d (filename @ ''.json'') (JsonRun []))
        else (Some OSError, d))
   \<and> save_all lib d now [] output_prefix =
       (if can_open d (output_prefix @ ''_'' @ strftime lib now @ ''.json'')
        then (None, write_file d (output_prefix @ ''_'' @ strftime lib now @ ''.json'')
                      (JsonRun []))
        else (Some OSError, d))
   \<and> (\<forall>name. name \<noteq> output_prefix @ ''_'' @ strftime lib now @ ''.json'' \<longrightarrow>
         files (snd (save_all lib d now [] output_prefix)) name = files d name)
   \<and> monitor lib d interval duration output_prefix True now ticks =
       Some (Stopped, [], save_all lib d now [] output_prefix)"
  by (simp add: save_all_empty monitor_early_signal)
     (simp add: save_data_csv_def save_data_json_def save_analysis_def
                analyze_concurrent_performance_def write_file_def Let_def)

theorem empty_run_writes_only_json_witness:
  "''m_0000000000.csv'' \<noteq> ''m'' @ ''_'' @ strftime plain_lib 0 @ ''.json''
   \<and> ''m_0000000000_analysis.json'' \<noteq> ''m'' @ ''_'' @ strftime plain_lib 0 @ ''.json''
   \<and> files (snd (save_all plain_lib empty_disk 0 [] ''m'')) ''m_0000000000.csv'' = None
   \<and> files (snd (save_all plain_lib empty_disk 0 [] ''m'')) ''m_0000000000_analysis.json'' = None
   \<and> files (snd (save_all plain_lib empty_disk 0 [] ''m'')) ''m_0000000000.json''
       = Some (JsonRun [])"
proof -
  have s: "strftime plain_lib 0 = ''0000000000''"
    by code_simp
  have a: "''m_0000000000.csv'' \<noteq> ''m'' @ ''_'' @ strftime plain_lib 0 @ ''.json''"
    and b: "''m_0000000000_analysis.json'' \<noteq> ''m'' @ ''_'' @ strftime plain_lib 0 @ ''.json''"
    by (simp_all add: s)
  from empty_run_writes_only_json [of empty_disk "''m''" plain_lib 0 "''m''" 1 None "[]"] a b s
  show ?thesis
    by (simp add: empty_disk_def write_file_def)
qed

section \<open>The hardware-counter fields of a Sample\<close>

lemma map_of_dict_update_distinct:
  "distinct (map fst other) \<Longrightarrow>
   map_of (dict_update d other) k =
     (case map_of other k of None \<Rightarrow> map_of d k | Some v \<Rightarrow> Some v)"
  unfolding dict_update_def
proof (induction other arbitrary: d)
  case Nil
  show ?case by simp
next
  case (Cons p ps)
  then have d: "distinct (map fst ps)" and n: "fst p \<notin> fst ` set ps"
    by auto
  from n have "map_of ps (fst p) = None"
    by (simp add: map_of_eq_None_iff)
  with Cons.IH [OF d, of "dict_set (fst p) (snd p) d"] show ?case
    by (cases p) (auto simp: map_of_dict_set split: option.splits)
qed

lemma gpu_info_key_list:
  assumes "get_gpu_info lib r = Some g"
  shows "map fst g =
           [''timestamp'', ''gpu_name'', ''memory_total_mb'', ''memory_used_mb'',
            ''memory_free_mb'', ''gpu_utilization_%'', ''memory_utilization_%'',
            ''temperature_c'', ''power_draw_w'', ''gpu_clock_mhz'', ''memory_clock_mhz'',
            ''memory_percent'']"
proof (cases r)
  case (Inl e)
  with assms show ?thesis by (simp add: get_gpu_info_def)
next
  case (Inr stdout)
  with assms have "get_gpu_info lib (Inr stdout) = Some g" by simp
  then obtain v0 v1 total used free util mem_util temp power gpu_clock mem_clock mp where
    "g = [(''timestamp'', PStr v0),
             (''gpu_name'', PStr v1),
             (''memory_total_mb'', PNum (PyInt total)),
             (''memory_used_mb'', PNum (PyInt used)),
             (''memory_free_mb'', PNum (PyInt free)),
             (''gpu_utilization_%'', util),
             (''memory_utilization_%'', mem_util),
             (''temperature_c'', temp),
             (''power_draw_w'', power),
             (''gpu_clock_mhz'', gpu_clock),
             (''memory_clock_mhz'', mem_clock),
             (''memory_percent'', PNum (PyFloat mp))]"
    by (rule gpu_info_fields)
  then show ?thesis by simp
qed

lemma system_info_key_list:
  "fst ` set (get_system_info reading) \<subseteq>
     set [''cpu_percent_total'', ''cpu_cores_count'', ''cpu_cores_usage'', ''cpu_max_core'',
          ''memory_total_gb'', ''memory_used_gb'', ''memory_available_gb'',
          ''memory_percent'', ''load_average'']"
  by (cases reading) (simp_all add: get_system_info_def)

lemma hls_key_list:
  assumes "get_hls_output_stats p = Inr h"
  shows "fst ` set h \<subseteq>
           set [''total_playlists'', ''total_segments'', ''total_size_mb'',
                ''avg_segments_per_playlist'']"
  using hls_result_shapes [OF assms] by (auto simp: hls_fallback_def)

lemma collect_data_lookup:
  assumes "collect_data lib now t = Inr dp"
    and k: "k \<notin> set [''timestamp'', ''unix_timestamp'',
                     ''compute_processes'', ''ffmpeg_processes'',
                     ''total_ffmpeg_processes'', ''total_compute_processes'',
                     ''nvenc1_estimated_load'', ''nvenc2_estimated_load'',
                     ''total_concurrent_streams'',
                     ''cpu_percent_total'', ''cpu_cores_count'', ''cpu_cores_usage'',
                     ''cpu_max_core'', ''memory_total_gb'', ''memory_used_gb'',
                     ''memory_available_gb'', ''memory_percent'', ''load_average'',
                     ''total_playlists'', ''total_segments'', ''total_size_mb'',
                     ''avg_segments_per_playlist'']"
  shows "map_of dp k =
           (case map_of (get_nvenc_encoder_stats lib (encoder_query t)) k of
              Some v \<Rightarrow> Some v
            | None \<Rightarrow>
                (case get_gpu_info lib (gpu_query t) of
                   None \<Rightarrow> None
                 | Some g \<Rightarrow> map_of g k))"
proof -
  define d0 :: dict where
    "d0 = [(''timestamp'', PStr (isoformat lib now)), (''unix_timestamp'', PNum (PyFloat now))]"
  define d1 where
    "d1 = (case get_gpu_info lib (gpu_query t) of None \<Rightarrow> d0 | Some g \<Rightarrow> dict_update d0 g)"
  define enc where "enc = get_nvenc_encoder_stats lib (encoder_query t)"
  define d2 where "d2 = dict_update d1 enc"
  define ps where "ps = get_ffmpeg_processes now (os_processes t)"
  define d3 where "d3 = dict_set ''compute_processes'' (PList (compute_processes t)) d2"
  define d4 where "d4 = dict_set ''ffmpeg_processes'' (PList (map process_dict ps)) d3"
  define d5 where "d5 = dict_set ''total_ffmpeg_processes'' (PNum (PyInt (int (length ps)))) d4"
  define d6 where
    "d6 = dict_set ''total_compute_processes''
            (PNum (PyInt (int (length (compute_processes t))))) d5"
  define d7 where "d7 = dict_update d6 (util_dict (detect_nvenc_utilization ps))"
  define d8 where "d8 = dict_update d7 (get_system_info (system_reading t))"
  from assms(1) obtain h where h: "get_hls_output_stats (output_state t) = Inr h"
    and dp: "dp = dict_update d8 h"
    unfolding collect_data_def Let_def d0_def d1_def d2_def enc_def ps_def d3_def d4_def
              d5_def d6_def d7_def d8_def
    by (auto split: sum.splits)
  have "map_of d0 k = None"
    using k by (simp add: d0_def)
  have m1: "map_of d1 k =
              (case get_gpu_info lib (gpu_query t) of None \<Rightarrow> None | Some g \<Rightarrow> map_of g k)"
  proof (cases "get_gpu_info lib (gpu_query t)")
    case None
    with \<open>map_of d0 k = None\<close> show ?thesis by (simp add: d1_def)
  next
    case (Some g)
    then have "distinct (map fst g)"
      by (simp add: gpu_info_key_list)
    then have "map_of (dict_update d0 g) k =
                 (case map_of g k of None \<Rightarrow> map_of d0 k | Some v \<Rightarrow> Some v)"
      by (rule map_of_dict_update_distinct)
    with Some \<open>map_of d0 k = None\<close> show ?thesis
      by (simp add: d1_def split: option.splits)
  qed
  have "distinct (map fst enc)"
    by (simp add: enc_def encoder_keys)
  then have m2: "map_of d2 k = (case map_of enc k of None \<Rightarrow> map_of d1 k | Some v \<Rightarrow> Some v)"
    unfolding d2_def by (rule map_of_dict_update_distinct)
  have "map_of d6 k = map_of d2 k"
    using k by (simp add: d3_def d4_def d5_def d6_def map_of_dict_set)
  moreover have "map_of d7 k = map_of d6 k"
    using k by (simp add: d7_def map_of_dict_update_other util_dict_def)
  moreover have "map_of d8 k = map_of d7 k"
  proof -
    have "k \<notin> fst ` set (get_system_info (system_reading t))"
      using k system_info_key_list [of "system_reading t"] by auto
    then show ?thesis by (simp add: d8_def map_of_dict_update_other)
  qed
  moreover have "map_of dp k = map_of d8 k"
  proof -
    have "k \<notin> fst ` set h"
      using k hls_key_list [OF h] by auto
    then show ?thesis by (simp add: dp map_of_dict_update_other)
  qed
  ultimately have "map_of dp k = map_of d2 k"
    by simp
  with m1 m2 show ?thesis
    by (simp add: enc_def split: option.splits)
qed

lemma encoder_lookup_none:
  "k \<notin> set [''encoder_sessions'', ''encoder_avg_fps'', ''encoder_avg_latency_ms'']
     \<Longrightarrow> map_of (get_nvenc_encoder_stats lib r) k = None"
proof -
  assume "k \<notin> set [''encoder_sessions'', ''encoder_avg_fps'', ''encoder_avg_latency_ms'']"
  then have "k \<notin> set (map fst (get_nvenc_encoder_stats lib r))"
    by (metis encoder_keys)
  then show ?thesis
    by (simp add: map_of_eq_None_iff)
qed

lemma sample_gpu_fields:
  assumes "collect_data lib now t = Inr dp"
  shows "\<forall>(i, key) \<in> set guarded_gpu_fields.
           map_of dp key =
             (case get_gpu_info lib (gpu_query t) of
                None \<Rightarrow> None
              | Some g \<Rightarrow> map_of g key)"
  unfolding guarded_gpu_fields_def
  using collect_data_lookup [OF assms, of "''gpu_utilization_%''"]
        collect_data_lookup [OF assms, of "''memory_utilization_%''"]
        collect_data_lookup [OF assms, of "''temperature_c''"]
        collect_data_lookup [OF assms, of "''power_draw_w''"]
        collect_data_lookup [OF assms, of "''gpu_clock_mhz''"]
        collect_data_lookup [OF assms, of "''memory_clock_mhz''"]
  by (simp add: encoder_lookup_none)

lemma sample_encoder_fields:
  assumes "collect_data lib now t = Inr dp"
  shows "\<forall>(i, key) \<in> set encoder_fields.
           map_of dp key = map_of (get_nvenc_encoder_stats lib (encoder_query t)) key"
proof -
  have some: "\<And>k. k \<in> set [''encoder_sessions'', ''encoder_avg_fps'', ''encoder_avg_latency_ms'']
     \<Longrightarrow> \<exists>v. map_of (get_nvenc_encoder_stats lib (encoder_query t)) k = Some v"
  proof -
    fix k assume "k \<in> set [''encoder_sessions'', ''encoder_avg_fps'', ''encoder_avg_latency_ms'']"
    then have "k \<in> set (map fst (get_nvenc_encoder_stats lib (encoder_query t)))"
      by (metis encoder_keys)
    then have "map_of (get_nvenc_encoder_stats lib (encoder_query t)) k \<noteq> None"
      by (simp add: map_of_eq_None_iff)
    then show "\<exists>v. map_of (get_nvenc_encoder_stats lib (encoder_query t)) k = Some v"
      by auto
  qed
  show ?thesis
    unfolding encoder_fields_def
    using collect_data_lookup [OF assms, of "''encoder_sessions''"]
          collect_data_lookup [OF assms, of "''encoder_avg_fps''"]
          collect_data_lookup [OF assms, of "''encoder_avg_latency_ms''"]
          some [of "''encoder_sessions''"] some [of "''encoder_avg_fps''"]
          some [of "''encoder_avg_latency_ms''"]
    by auto
qed


lemma gpu_query_unusable:
  "get_gpu_info lib (Inl e) = None"
  "length (split_on CHR '','' (py_strip stdout)) < 11 \<Longrightarrow> get_gpu_info lib (Inr stdout) = None"
  "(i, key) \<in> set guarded_float_fields
     \<Longrightarrow> field (split_on CHR '','' (py_strip stdout)) i = Some x
     \<Longrightarrow> x \<noteq> ''[N/A]'' \<Longrightarrow> float_of lib x = None
     \<Longrightarrow> get_gpu_info lib (Inr stdout) = None"
  "(i, key) \<in> set guarded_int_fields
     \<Longrightarrow> field (split_on CHR '','' (py_strip stdout)) i = Some x
     \<Longrightarrow> x \<noteq> ''[N/A]'' \<Longrightarrow> int_of lib x = None
     \<Longrightarrow> get_gpu_info lib (Inr stdout) = None"
proof -
  let ?vs = "split_on CHR '','' (py_strip stdout)"
  show "get_gpu_info lib (Inl e) = None"
    by (simp add: get_gpu_info_def)
  have parsed: "get_gpu_info lib (Inr stdout) \<noteq> None \<Longrightarrow>
      Option.bind (field ?vs 5) (float_or_zero lib) \<noteq> None
      \<and> Option.bind (field ?vs 6) (float_or_zero lib) \<noteq> None
      \<and> Option.bind (field ?vs 7) (int_or_zero lib) \<noteq> None
      \<and> Option.bind (field ?vs 8) (float_or_zero lib) \<noteq> None
      \<and> Option.bind (field ?vs 9) (int_or_zero lib) \<noteq> None
      \<and> Option.bind (field ?vs 10) (int_or_zero lib) \<noteq> None"
  proof -
    assume "get_gpu_info lib (Inr stdout) \<noteq> None"
    then obtain info where "get_gpu_info lib (Inr stdout) = Some info" by auto
    then obtain v0 v1 total used free util mem_util temp power gpu_clock mem_clock mp where
      "Option.bind (field ?vs 5) (float_or_zero lib) = Some util"
      "Option.bind (field ?vs 6) (float_or_zero lib) = Some mem_util"
      "Option.bind (field ?vs 7) (int_or_zero lib) = Some temp"
      "Option.bind (field ?vs 8) (float_or_zero lib) = Some power"
      "Option.bind (field ?vs 9) (int_or_zero lib) = Some gpu_clock"
      "Option.bind (field ?vs 10) (int_or_zero lib) = Some mem_clock"
      by (rule gpu_info_fields)
    then show ?thesis by simp
  qed
  show "get_gpu_info lib (Inr stdout) = None" if "length ?vs < 11"
  proof (rule ccontr)
    assume "get_gpu_info lib (Inr stdout) \<noteq> None"
    from parsed [OF this] have "field ?vs 10 \<noteq> None"
      by (auto split: Option.bind_splits)
    with that show False by (simp add: field_def)
  qed
  show "get_gpu_info lib (Inr stdout) = None"
    if "(i, key) \<in> set guarded_float_fields" "field ?vs i = Some x" "x \<noteq> ''[N/A]''"
       "float_of lib x = None"
  proof (rule ccontr)
    assume "get_gpu_info lib (Inr stdout) \<noteq> None"
    from parsed [OF this] that show False
      by (auto simp: guarded_float_fields_def float_or_zero_def)
  qed
  show "get_gpu_info lib (Inr stdout) = None"
    if "(i, key) \<in> set guarded_int_fields" "field ?vs i = Some x" "x \<noteq> ''[N/A]''"
       "int_of lib x = None"
  proof (rule ccontr)
    assume "get_gpu_info lib (Inr stdout) \<noteq> None"
    from parsed [OF this] that show False
      by (auto simp: guarded_int_fields_def int_or_zero_def)
  qed
qed

lemma encoder_parsed:
  assumes "get_nvenc_encoder_stats lib (Inr (rc, out)) \<noteq> encoder_defaults"
  shows "Option.bind (field (split_on CHR '','' (py_strip out)) 0) (int_or_zero lib) \<noteq> None
         \<and> Option.bind (field (split_on CHR '','' (py_strip out)) 1) (float_or_zero lib) \<noteq> None
         \<and> Option.bind (field (split_on CHR '','' (py_strip out)) 2) (float_or_zero lib) \<noteq> None"
  using assms unfolding get_nvenc_encoder_stats_def Let_def
  by (auto split: if_splits option.splits Option.bind_splits)

lemma encoder_query_unusable:
  "length (split_on CHR '','' (py_strip out)) < 3
     \<Longrightarrow> get_nvenc_encoder_stats lib (Inr (rc, out)) = encoder_defaults"
  "field (split_on CHR '','' (py_strip out)) 0 = Some x
     \<Longrightarrow> x \<noteq> ''[N/A]'' \<Longrightarrow> int_of lib x = None
     \<Longrightarrow> get_nvenc_encoder_stats lib (Inr (rc, out)) = encoder_defaults"
  "i = 1 \<or> i = 2 \<Longrightarrow> field (split_on CHR '','' (py_strip out)) i = Some x
     \<Longrightarrow> x \<noteq> ''[N/A]'' \<Longrightarrow> float_of lib x = None
     \<Longrightarrow> get_nvenc_encoder_stats lib (Inr (rc, out)) = encoder_defaults"
proof -
  let ?vs = "split_on CHR '','' (py_strip out)"
  show "get_nvenc_encoder_stats lib (Inr (rc, out)) = encoder_defaults" if "length ?vs < 3"
  proof (rule ccontr)
    assume "get_nvenc_encoder_stats lib (Inr (rc, out)) \<noteq> encoder_defaults"
    from encoder_parsed [OF this] have "field ?vs 2 \<noteq> None"
      by (auto split: Option.bind_splits)
    with that show False by (simp add: field_def)
  qed
  show "get_nvenc_encoder_stats lib (Inr (rc, out)) = encoder_defaults"
    if "field ?vs 0 = Some x" "x \<noteq> ''[N/A]''" "int_of lib x = None"
  proof (rule ccontr)
    assume "get_nvenc_encoder_stats lib (Inr (rc, out)) \<noteq> encoder_defaults"
    from encoder_parsed [OF this] that show False
      by (simp add: int_or_zero_def)
  qed
  show "get_nvenc_encoder_stats lib (Inr (rc, out)) = encoder_defaults"
    if "i = 1 \<or> i = 2" "field ?vs i = Some x" "x \<noteq> ''[N/A]''" "float_of lib x = None"
  proof (rule ccontr)
    assume "get_nvenc_encoder_stats lib (Inr (rc, out)) \<noteq> encoder_defaults"
    from encoder_parsed [OF this] that show False
      by (auto simp: float_or_zero_def)
  qed
qed

lemma sample_gpu_part:
  assumes c: "collect_data lib now t = Inr dp" and m: "(i, key) \<in> set guarded_gpu_fields"
  shows "map_of dp key =
           (case get_gpu_info lib (gpu_query t) of None \<Rightarrow> None | Some g \<Rightarrow> map_of g key)
         \<and> (get_gpu_info lib (gpu_query t) = None \<longrightarrow> map_of dp key = None)
         \<and> (map_of dp key = None \<or> (\<exists>n. map_of dp key = Some (PNum n)))
         \<and> (gpu_query t = Inr stdout \<and> get_gpu_info lib (Inr stdout) \<noteq> None
              \<and> field (split_on CHR '','' (py_strip stdout)) i = Some ''[N/A]''
              \<longrightarrow> map_of dp key = Some (PNum (PyInt 0)))"
proof -
  have look: "map_of dp key =
           (case get_gpu_info lib (gpu_query t) of None \<Rightarrow> None | Some g \<Rightarrow> map_of g key)"
    using sample_gpu_fields [OF c] m by auto
  show ?thesis
  proof (cases "get_gpu_info lib (gpu_query t)")
    case None
    with look show ?thesis by auto
  next
    case (Some g)
    then obtain s where s: "gpu_query t = Inr s"
      by (cases "gpu_query t") (simp_all add: get_gpu_info_def)
    with Some have g: "get_gpu_info lib (Inr s) = Some g" by simp
    from gpu_na_zero [OF g] m
    have na: "field (split_on CHR '','' (py_strip s)) i = Some ''[N/A]''
                \<longrightarrow> map_of g key = Some (PNum (PyInt 0))"
      and num: "\<exists>n. map_of g key = Some (PNum n)"
      by auto
    from look Some have "map_of dp key = map_of g key" by simp
    with na num s Some show ?thesis by auto
  qed
qed

lemma sample_encoder_part:
  assumes c: "collect_data lib now t = Inr dp" and m: "(i, key) \<in> set encoder_fields"
  shows "map_of dp key = map_of (get_nvenc_encoder_stats lib (encoder_query t)) key
         \<and> (\<exists>n. map_of dp key = Some (PNum n))
         \<and> (encoder_query t = Inr (rc, out)
              \<and> field (split_on CHR '','' (py_strip out)) i = Some ''[N/A]''
              \<longrightarrow> map_of dp key = Some (PNum (PyInt 0)))
         \<and> (get_nvenc_encoder_stats lib (encoder_query t) = encoder_defaults
              \<longrightarrow> map_of dp key = Some (PNum (PyInt 0)))"
proof -
  have look: "map_of dp key = map_of (get_nvenc_encoder_stats lib (encoder_query t)) key"
    using sample_encoder_fields [OF c] m by auto
  have num: "\<exists>n. map_of (get_nvenc_encoder_stats lib (encoder_query t)) key = Some (PNum n)"
  proof (cases "encoder_query t")
    case (Inl e)
    with m show ?thesis
      by (auto simp: get_nvenc_encoder_stats_def encoder_defaults_def encoder_fields_def)
  next
    case (Inr p)
    obtain rc' out' where "p = (rc', out')" by (cases p)
    with Inr encoder_na_zero [of out' lib rc'] m show ?thesis by auto
  qed
  have na: "encoder_query t = Inr (rc, out)
              \<and> field (split_on CHR '','' (py_strip out)) i = Some ''[N/A]''
              \<longrightarrow> map_of (get_nvenc_encoder_stats lib (encoder_query t)) key
                   = Some (PNum (PyInt 0))"
    using encoder_na_zero [of out lib rc] m by auto
  have dflt: "get_nvenc_encoder_stats lib (encoder_query t) = encoder_defaults
              \<longrightarrow> map_of (get_nvenc_encoder_stats lib (encoder_query t)) key
                   = Some (PNum (PyInt 0))"
    using m by (auto simp: encoder_defaults_def encoder_fields_def)
  from look num na dflt show ?thesis by simp
qed


text \<open>
  C1, as the code has it: a guarded field of the GPU query or a field of the encoder
  query that the driver reports as \<open>[N/A]\<close> is recorded in the Sample as the int 0 (for a
  GPU field, when the GPU answer as a whole parses). These fields have no value for
  "unavailable": where a Sample has them, they hold a number. The encoder fields are all
  0 as well when the encoder query fails, exits with a non-zero code, prints nothing,
  has fewer than three fields, or has a field that is neither \<open>[N/A]\<close> nor parses. When
  the GPU query fails, has fewer than eleven fields, or has a guarded field that is
  neither \<open>[N/A]\<close> nor parses, \<open>get_gpu_info\<close> returns nothing and the six fields are
  left out of the Sample.
\<close>

theorem na_fields_recorded_as_zero:
  "(collect_data lib now t = Inr dp \<longrightarrow>
      (\<forall>(i, key) \<in> set guarded_gpu_fields.
         map_of dp key =
           (case get_gpu_info lib (gpu_query t) of None \<Rightarrow> None | Some g \<Rightarrow> map_of g key)
         \<and> (get_gpu_info lib (gpu_query t) = None \<longrightarrow> map_of dp key = None)
         \<and> (map_of dp key = None \<or> (\<exists>n. map_of dp key = Some (PNum n)))
         \<and> (gpu_query t = Inr stdout \<and> get_gpu_info lib (Inr stdout) \<noteq> None
              \<and> field (split_on CHR '','' (py_strip stdout)) i = Some ''[N/A]''
              \<longrightarrow> map_of dp key = Some (PNum (PyInt 0))))
      \<and> (\<forall>(i, key) \<in> set encoder_fields.
         map_of dp key = map_of (get_nvenc_encoder_stats lib (encoder_query t)) key
         \<and> (\<exists>n. map_of dp key = Some (PNum n))
         \<and> (encoder_query t = Inr (rc, out)
              \<and> field (split_on CHR '','' (py_strip out)) i = Some ''[N/A]''
              \<longrightarrow> map_of dp key = Some (PNum (PyInt 0)))
         \<and> (get_nvenc_encoder_stats lib (encoder_query t) = encoder_defaults
              \<longrightarrow> map_of dp key = Some (PNum (PyInt 0)))))
   \<and> (get_gpu_info lib (Inr stdout) = Some info \<longrightarrow>
      (\<forall>(i, key) \<in> set guarded_gpu_fields.
         (field (split_on CHR '','' (py_strip stdout)) i = Some ''[N/A]''
            \<longrightarrow> map_of info key = Some (PNum (PyInt 0)))
         \<and> (\<exists>n. map_of info key = Some (PNum n))))
   \<and> (\<forall>(i, key) \<in> set encoder_fields.
         (field (split_on CHR '','' (py_strip out)) i = Some ''[N/A]''
            \<longrightarrow> map_of (get_nvenc_encoder_stats lib (Inr (rc, out))) key = Some (PNum (PyInt 0)))
         \<and> (\<exists>n. map_of (get_nvenc_encoder_stats lib (Inr (rc, out))) key = Some (PNum n)))
   \<and> get_nvenc_encoder_stats lib (Inl e) = encoder_defaults
   \<and> (rc \<noteq> 0 \<or> py_strip out = [] \<or> length (split_on CHR '','' (py_strip out)) < 3
        \<longrightarrow> get_nvenc_encoder_stats lib (Inr (rc, out)) = encoder_defaults)
   \<and> (field (split_on CHR '','' (py_strip out)) 0 = Some x \<and> x \<noteq> ''[N/A]'' \<and> int_of lib x = None
        \<longrightarrow> get_nvenc_encoder_stats lib (Inr (rc, out)) = encoder_defaults)
   \<and> ((j = 1 \<or> j = 2) \<and> field (split_on CHR '','' (py_strip out)) j = Some x \<and> x \<noteq> ''[N/A]''
        \<and> float_of lib x = None
        \<longrightarrow> get_nvenc_encoder_stats lib (Inr (rc, out)) = encoder_defaults)
   \<and> get_gpu_info lib (Inl e) = None
   \<and> (length (split_on CHR '','' (py_strip stdout)) < 11 \<longrightarrow> get_gpu_info lib (Inr stdout) = None)
   \<and> (\<forall>(i, key) \<in> set guarded_float_fields.
        field (split_on CHR '','' (py_strip stdout)) i = Some x \<and> x \<noteq> ''[N/A]'' \<and> float_of lib x = None
        \<longrightarrow> get_gpu_info lib (Inr stdout) = None)
   \<and> (\<forall>(i, key) \<in> set guarded_int_fields.
        field (split_on CHR '','' (py_strip stdout)) i = Some x \<and> x \<noteq> ''[N/A]'' \<and> int_of lib x = None
        \<longrightarrow> get_gpu_info lib (Inr stdout) = None)"
proof -
  have c1: "(collect_data lib now t = Inr dp \<longrightarrow>
      (\<forall>(i, key) \<in> set guarded_gpu_fields.
         map_of dp key =
           (case get_gpu_info lib (gpu_query t) of None \<Rightarrow> None | Some g \<Rightarrow> map_of g key)
         \<and> (get_gpu_info lib (gpu_query t) = None \<longrightarrow> map_of dp key = None)
         \<and> (map_of dp key = None \<or> (\<exists>n. map_of dp key = Some (PNum n)))
         \<and> (gpu_query t = Inr stdout \<and> get_gpu_info lib (Inr stdout) \<noteq> None
              \<and> field (split_on CHR '','' (py_strip stdout)) i = Some ''[N/A]''
              \<longrightarrow> map_of dp key = Some (PNum (PyInt 0))))
      \<and> (\<forall>(i, key) \<in> set encoder_fields.
         map_of dp key = map_of (get_nvenc_encoder_stats lib (encoder_query t)) key
         \<and> (\<exists>n. map_of dp key = Some (PNum n))
         \<and> (encoder_query t = Inr (rc, out)
              \<and> field (split_on CHR '','' (py_strip out)) i = Some ''[N/A]''
              \<longrightarrow> map_of dp key = Some (PNum (PyInt 0)))
         \<and> (get_nvenc_encoder_stats lib (encoder_query t) = encoder_defaults
              \<longrightarrow> map_of dp key = Some (PNum (PyInt 0)))))"
  proof (intro impI conjI ballI)
    fix p assume c: "collect_data lib now t = Inr dp" and p: "p \<in> set guarded_gpu_fields"
    obtain i key where ik: "p = (i, key)" by (cases p)
    have "(i, key) \<in> set guarded_gpu_fields" using p ik by simp
    from sample_gpu_part [OF c this, of stdout]
    show "case p of (i, key) \<Rightarrow>
         map_of dp key =
           (case get_gpu_info lib (gpu_query t) of None \<Rightarrow> None | Some g \<Rightarrow> map_of g key)
         \<and> (get_gpu_info lib (gpu_query t) = None \<longrightarrow> map_of dp key = None)
         \<and> (map_of dp key = None \<or> (\<exists>n. map_of dp key = Some (PNum n)))
         \<and> (gpu_query t = Inr stdout \<and> get_gpu_info lib (Inr stdout) \<noteq> None
              \<and> field (split_on CHR '','' (py_strip stdout)) i = Some ''[N/A]''
              \<longrightarrow> map_of dp key = Some (PNum (PyInt 0)))"
      unfolding ik prod.case .
  next
    fix p assume c: "collect_data lib now t = Inr dp" and p: "p \<in> set encoder_fields"
    obtain i key where ik: "p = (i, key)" by (cases p)
    have "(i, key) \<in> set encoder_fields" using p ik by simp
    from sample_encoder_part [OF c this, of rc out]
    show "case p of (i, key) \<Rightarrow>
         map_of dp key = map_of (get_nvenc_encoder_stats lib (encoder_query t)) key
         \<and> (\<exists>n. map_of dp key = Some (PNum n))
         \<and> (encoder_query t = Inr (rc, out)
              \<and> field (split_on CHR '','' (py_strip out)) i = Some ''[N/A]''
              \<longrightarrow> map_of dp key = Some (PNum (PyInt 0)))
         \<and> (get_nvenc_encoder_stats lib (encoder_query t) = encoder_defaults
              \<longrightarrow> map_of dp key = Some (PNum (PyInt 0)))"
      unfolding ik prod.case .
  qed
  have c2: "(get_gpu_info lib (Inr stdout) = Some info \<longrightarrow>
      (\<forall>(i, key) \<in> set guarded_gpu_fields.
         (field (split_on CHR '','' (py_strip stdout)) i = Some ''[N/A]''
            \<longrightarrow> map_of info key = Some (PNum (PyInt 0)))
         \<and> (\<exists>n. map_of info key = Some (PNum n))))"
    using gpu_na_zero by blast
  have c3: "(\<forall>(i, key) \<in> set encoder_fields.
         (field (split_on CHR '','' (py_strip out)) i = Some ''[N/A]''
            \<longrightarrow> map_of (get_nvenc_encoder_stats lib (Inr (rc, out))) key = Some (PNum (PyInt 0)))
         \<and> (\<exists>n. map_of (get_nvenc_encoder_stats lib (Inr (rc, out))) key = Some (PNum n)))"
    using encoder_na_zero by blast
  have c4: "get_nvenc_encoder_stats lib (Inl e) = encoder_defaults"
    by (rule encoder_failure_zero(1))
  have c5: "(rc \<noteq> 0 \<or> py_strip out = [] \<or> length (split_on CHR '','' (py_strip out)) < 3
        \<longrightarrow> get_nvenc_encoder_stats lib (Inr (rc, out)) = encoder_defaults)"
    using encoder_failure_zero(2,3) encoder_query_unusable(1) by blast
  have c6: "(field (split_on CHR '','' (py_strip out)) 0 = Some x \<and> x \<noteq> ''[N/A]'' \<and> int_of lib x = None
        \<longrightarrow> get_nvenc_encoder_stats lib (Inr (rc, out)) = encoder_defaults)"
    using encoder_query_unusable(2) by blast
  have c7: "((j = 1 \<or> j = 2) \<and> field (split_on CHR '','' (py_strip out)) j = Some x \<and> x \<noteq> ''[N/A]''
        \<and> float_of lib x = None
        \<longrightarrow> get_nvenc_encoder_stats lib (Inr (rc, out)) = encoder_defaults)"
    using encoder_query_unusable(3) by blast
  have c8: "get_gpu_info lib (Inl e) = None"
    by (rule gpu_query_unusable(1))
  have c9: "(length (split_on CHR '','' (py_strip stdout)) < 11 \<longrightarrow> get_gpu_info lib (Inr stdout) = None)"
    using gpu_query_unusable(2) by blast
  have c10: "(\<forall>(i, key) \<in> set guarded_float_fields.
        field (split_on CHR '','' (py_strip stdout)) i = Some x \<and> x \<noteq> ''[N/A]'' \<and> float_of lib x = None
        \<longrightarrow> get_gpu_info lib (Inr stdout) = None)"
    using gpu_query_unusable(3) by blast
  have c11: "(\<forall>(i, key) \<in> set guarded_int_fields.
        field (split_on CHR '','' (py_strip stdout)) i = Some x \<and> x \<noteq> ''[N/A]'' \<and> int_of lib x = None
        \<longrightarrow> get_gpu_info lib (Inr stdout) = None)"
    using gpu_query_unusable(4) by blast
  show ?thesis
    by (intro conjI) (rule c1, rule c2, rule c3, rule c4, rule c5, rule c6, rule c7, rule c8, rule c9, rule c10, rule c11)
qed

lemma na_tick_returns:
  "\<not> isl (collect_data plain_lib 0 na_tick)"
  by code_simp

lemma na_tick_sample:
  "map (map_of (projr (collect_data plain_lib 0 na_tick)))
       [''gpu_utilization_%'', ''temperature_c'', ''memory_clock_mhz'',
        ''encoder_sessions'', ''encoder_avg_fps'', ''encoder_avg_latency_ms'']
     = [Some (PNum (PyInt 0)), Some (PNum (PyInt 0)), Some (PNum (PyInt 0)),
        Some (PNum (PyInt 0)), Some (PNum (PyInt 0)), Some (PNum (PyInt 0))]"
  by code_simp

theorem na_fields_recorded_as_zero_witness:
  "\<not> isl (collect_data plain_lib 0 na_tick)
   \<and> (7, ''temperature_c'') \<in> set guarded_gpu_fields
   \<and> gpu_query na_tick = Inr na_response
   \<and> get_gpu_info plain_lib (Inr na_response) \<noteq> None
   \<and> field (split_on CHR '','' (py_strip na_response)) 7 = Some ''[N/A]''
   \<and> map_of (projr (collect_data plain_lib 0 na_tick)) ''temperature_c''
       = Some (PNum (PyInt 0))"
proof -
  have c: "collect_data plain_lib 0 na_tick = Inr (projr (collect_data plain_lib 0 na_tick))"
    using na_tick_returns by simp
  have m: "(7, ''temperature_c'') \<in> set guarded_gpu_fields"
    by (simp add: guarded_gpu_fields_def)
  have q: "gpu_query na_tick = Inr na_response"
    by (simp add: na_tick_def quick_tick_def)
  have g: "get_gpu_info plain_lib (Inr na_response) \<noteq> None"
    by (simp add: na_response_info)
  note s = na_fields_recorded_as_zero
         [of plain_lib 0 na_tick "projr (collect_data plain_lib 0 na_tick)" na_response,
          THEN conjunct1, THEN mp, OF c, THEN conjunct1, THEN bspec, OF m,
          unfolded prod.case, THEN conjunct2, THEN conjunct2, THEN conjunct2]
  have r: "map_of (projr (collect_data plain_lib 0 na_tick)) ''temperature_c''
             = Some (PNum (PyInt 0))"
    by (rule mp [OF s]) (intro conjI q g na_response_field7)
  show ?thesis
    by (intro conjI na_tick_returns m q g na_response_field7 r)
qed

text \<open>
  C1 as the specification states it does not hold: for a tick whose GPU answer has the
  utilization, the temperature and the memory clock as \<open>[N/A]\<close> and whose encoder answer
  is all \<open>[N/A]\<close>, the Sample records the number 0 in each of these fields; the
  temperature is the value recorded when the driver reports 0; and a failed encoder
  query gives the same three zeros.
\<close>

theorem na_recorded_as_number_zero:
  "map (map_of (projr (collect_data plain_lib 0 na_tick)))
       [''gpu_utilization_%'', ''temperature_c'', ''memory_clock_mhz'',
        ''encoder_sessions'', ''encoder_avg_fps'', ''encoder_avg_latency_ms'']
     = [Some (PNum (PyInt 0)), Some (PNum (PyInt 0)), Some (PNum (PyInt 0)),
        Some (PNum (PyInt 0)), Some (PNum (PyInt 0)), Some (PNum (PyInt 0))]
   \<and> \<not> isl (collect_data plain_lib 0 na_tick)
   \<and> map_option (\<lambda>d. map_of d ''temperature_c'') (get_gpu_info plain_lib (Inr na_response))
     = Some (Some (PNum (PyInt 0)))
   \<and> map_option (\<lambda>d. map_of d ''temperature_c'') (get_gpu_info plain_lib (Inr zero_response))
     = Some (Some (PNum (PyInt 0)))
   \<and> map_option (\<lambda>d. map_of d ''gpu_utilization_%'') (get_gpu_info plain_lib (Inr na_response))
     = Some (Some (PNum (PyInt 0)))
   \<and> get_nvenc_encoder_stats plain_lib (Inr (0, ''[N/A], [N/A], [N/A]''))
     = [(''encoder_sessions'', PNum (PyInt 0)), (''encoder_avg_fps'', PNum (PyInt 0)),
        (''encoder_avg_latency_ms'', PNum (PyInt 0))]
   \<and> get_nvenc_encoder_stats plain_lib (Inl OSError)
     = [(''encoder_sessions'', PNum (PyInt 0)), (''encoder_avg_fps'', PNum (PyInt 0)),
        (''encoder_avg_latency_ms'', PNum (PyInt 0))]"
proof -
  have "get_nvenc_encoder_stats plain_lib (Inr (0, ''[N/A], [N/A], [N/A]''))
     = [(''encoder_sessions'', PNum (PyInt 0)), (''encoder_avg_fps'', PNum (PyInt 0)),
        (''encoder_avg_latency_ms'', PNum (PyInt 0))]"
    by code_simp
  moreover have "get_nvenc_encoder_stats plain_lib (Inl OSError)
     = [(''encoder_sessions'', PNum (PyInt 0)), (''encoder_avg_fps'', PNum (PyInt 0)),
        (''encoder_avg_latency_ms'', PNum (PyInt 0))]"
    by (simp add: get_nvenc_encoder_stats_def encoder_defaults_def)
  moreover have "map_option (\<lambda>d. map_of d ''temperature_c'')
                    (get_gpu_info plain_lib (Inr na_response)) = Some (Some (PNum (PyInt 0)))"
    and "map_option (\<lambda>d. map_of d ''temperature_c'')
           (get_gpu_info plain_lib (Inr zero_response)) = Some (Some (PNum (PyInt 0)))"
    and "map_option (\<lambda>d. map_of d ''gpu_utilization_%'')
           (get_gpu_info plain_lib (Inr na_response)) = Some (Some (PNum (PyInt 0)))"
    by (simp_all add: na_response_info zero_response_info)
  ultimately show ?thesis
    by (intro conjI na_tick_sample na_tick_returns)
qed

end
